theory Spec2Isabelle
  imports
    Complex_Main
    "HOL-Library.Char_ord"
    "HOL-Library.List_Lexorder"
    "HOL-Library.Product_Lexorder"
    "HOL-Library.Multiset"
begin

section \<open>The store of \<^verbatim>\<open>database.py\<close>\<close>

text \<open>
  \<^verbatim>\<open>CashflowDatabase\<close> keeps its state in an SQLite file. The model is the content of
  the tables the operations below read and write. A Python \<^verbatim>\<open>str\<close> bound to a \<^verbatim>\<open>TEXT\<close>
  column is a \<open>string\<close>, compared byte by byte as SQLite's default collation does; a row id
  is an \<open>int\<close>. A Python \<^verbatim>\<open>float\<close> bound to the \<^verbatim>\<open>REAL\<close> column \<^verbatim>\<open>amount\<close> is a finite IEEE
  double, which the model takes as the real number it denotes: comparing two doubles and
  negating one are exact, and that is all the model does with them itself; every addition
  of doubles is left to the library that performs it (see \<open>library\<close> below).
  The parameters \<^verbatim>\<open>date\<close>, \<^verbatim>\<open>type\<close>, \<^verbatim>\<open>category\<close> and \<^verbatim>\<open>amount\<close> are never \<^verbatim>\<open>None\<close> in the
  model, so the \<^verbatim>\<open>NOT NULL\<close> constraints of these columns hold by typing.
\<close>

text \<open>
  The exceptions that leave an operation: \<^verbatim>\<open>sqlite3.IntegrityError\<close>, and an exception
  raised inside a library, kept with the text that \<^verbatim>\<open>str(e)\<close> gives.
\<close>

datatype error = IntegrityError | ValueError string

record transaction =
  t_id :: int
  t_username :: string
  t_date :: string
  t_type :: string
  t_category :: string
  t_amount :: real
  t_description :: "string option"
  t_created_at :: string

text \<open>The \<^verbatim>\<open>id\<close> column of \<^verbatim>\<open>categories\<close> is read by no operation and is left out.\<close>

record category =
  c_name :: string
  c_type :: string

record user =
  u_username :: string
  u_password_hash :: string
  u_role :: string
  u_created_at :: string

text \<open>
  \<open>transactions_seq\<close> is the entry of \<^verbatim>\<open>sqlite_sequence\<close> that \<^verbatim>\<open>AUTOINCREMENT\<close> keeps for the
  table \<^verbatim>\<open>transactions\<close>: the largest row id ever handed out.
\<close>

record db =
  transactions :: "transaction list"
  transactions_seq :: int
  categories :: "category list"
  users :: "user list"

definition empty_db :: db where
  "empty_db = \<lparr>transactions = [], transactions_seq = 0, categories = [], users = []\<rparr>"

text \<open>
  Every operation opens its connection in a \<^verbatim>\<open>with\<close> block, which commits when the block
  ends and rolls back when an exception leaves it. A mutating operation is therefore a
  function from the store to \<open>Inr\<close> of the committed store or \<open>Inl\<close> of the exception
  raised; \<open>store_after\<close> is the store the next call sees.
\<close>

definition store_after :: "db \<Rightarrow> error + db \<Rightarrow> db" where
  "store_after d r = (case r of Inl e \<Rightarrow> d | Inr d' \<Rightarrow> d')"

subsection \<open>The libraries\<close>

text \<open>
  \<^verbatim>\<open>bcrypt\<close>, SQLite's built-in functions, \<^verbatim>\<open>pandas\<close> and the arithmetic of doubles belong
  to no file of the repository. They are parameters of the model, and nothing is assumed
  of them but their types. A library function that can raise returns \<open>Inl\<close> of the text
  of the exception.

  \<^item> \<open>hashpw password salt\<close> stands for \<^verbatim>\<open>bcrypt.hashpw(password.encode('utf-8'), salt)\<close>,
    and \<open>checkpw password hashed\<close> for \<^verbatim>\<open>bcrypt.checkpw(password.encode('utf-8'), hashed)\<close>:
    the encoding of the password and the call of \<^verbatim>\<open>bcrypt\<close>, either of which can raise.
    The salt that \<^verbatim>\<open>bcrypt.gensalt()\<close> draws is an argument of the operation that calls it.
  \<^item> \<open>strftime format text\<close> is SQLite's \<^verbatim>\<open>strftime\<close>; \<open>None\<close> is \<^verbatim>\<open>NULL\<close>.
  \<^item> \<open>sql_sum\<close> is SQLite's aggregate \<^verbatim>\<open>SUM\<close> on the \<^verbatim>\<open>REAL\<close> values of a group that is not
    empty, in the order in which the rows of the group are met.
  \<^item> \<open>to_datetime\<close> is \<^verbatim>\<open>pandas.to_datetime\<close> on a column of texts.
  \<^item> \<open>fadd\<close> is the addition of two doubles, as \<^verbatim>\<open>Series.cumsum\<close> and Python's \<^verbatim>\<open>+\<close> do it.
\<close>

text \<open>
  An entry of a \<^verbatim>\<open>datetime64\<close> column: \<^verbatim>\<open>NaT\<close>, or a \<^verbatim>\<open>Timestamp\<close> with its year, month, day
  and the nanoseconds since midnight. \<^verbatim>\<open>.dt.year\<close> and \<^verbatim>\<open>.dt.month\<close> are \<^verbatim>\<open>NaN\<close> on \<^verbatim>\<open>NaT\<close>.
\<close>

datatype timestamp = NaT | Timestamp int int int nat

fun dt_year :: "timestamp \<Rightarrow> int option" where
  "dt_year NaT = None"
| "dt_year (Timestamp y m dd ns) = Some y"

fun dt_month :: "timestamp \<Rightarrow> int option" where
  "dt_month NaT = None"
| "dt_month (Timestamp y m dd ns) = Some m"

record library =
  hashpw :: "string \<Rightarrow> string \<Rightarrow> string + string"
  checkpw :: "string \<Rightarrow> string \<Rightarrow> string + bool"
  strftime :: "string \<Rightarrow> string \<Rightarrow> string option"
  sql_sum :: "real list \<Rightarrow> real"
  to_datetime :: "string list \<Rightarrow> string + timestamp list"
  fadd :: "real \<Rightarrow> real \<Rightarrow> real"

subsection \<open>Transactions\<close>

text \<open>The two \<^verbatim>\<open>CHECK\<close> constraints of the table \<^verbatim>\<open>transactions\<close>.\<close>

definition check_type :: "string \<Rightarrow> bool" where
  "check_type ty = (ty = ''Income'' \<or> ty = ''Expense'')"

definition check_amount :: "real \<Rightarrow> bool" where
  "check_amount a = (a > 0)"

definition max_id :: "transaction list \<Rightarrow> int" where
  "max_id ts = fold max (map t_id ts) 0"

definition next_id :: "db \<Rightarrow> int" where
  "next_id d = max (transactions_seq d) (max_id (transactions d)) + 1"

text \<open>\<open>now\<close> is the value of \<^verbatim>\<open>CURRENT_TIMESTAMP\<close> at the insertion.\<close>

definition add_transaction ::
  "string \<Rightarrow> db \<Rightarrow> string \<Rightarrow> string \<Rightarrow> string \<Rightarrow> string \<Rightarrow> real \<Rightarrow> string option
     \<Rightarrow> error + db" where
  "add_transaction now d username date type category amount description =
     (if \<not> check_type type \<or> \<not> check_amount amount then Inl IntegrityError
      else Inr (d\<lparr>transactions := transactions d @
                   [\<lparr>t_id = next_id d, t_username = username, t_date = date, t_type = type,
                     t_category = category, t_amount = amount,
                     t_description = description, t_created_at = now\<rparr>],
                 transactions_seq := next_id d\<rparr>))"

text \<open>
  \<^verbatim>\<open>UPDATE ... WHERE id = ?\<close> checks the constraints on the rows it rewrites only: with no
  row of that id the statement changes nothing and raises nothing.
\<close>

definition update_transaction ::
  "db \<Rightarrow> int \<Rightarrow> string \<Rightarrow> string \<Rightarrow> string \<Rightarrow> real \<Rightarrow> string option \<Rightarrow> error + db" where
  "update_transaction d transaction_id date type category amount description =
     (if list_ex (\<lambda>t. t_id t = transaction_id) (transactions d)
         \<and> (\<not> check_type type \<or> \<not> check_amount amount)
      then Inl IntegrityError
      else Inr (d\<lparr>transactions :=
                   map (\<lambda>t. if t_id t = transaction_id
                             then t\<lparr>t_date := date, t_type := type, t_category := category,
                                    t_amount := amount, t_description := description\<rparr>
                             else t)
                       (transactions d)\<rparr>))"

definition delete_transaction :: "db \<Rightarrow> int \<Rightarrow> error + db" where
  "delete_transaction d transaction_id =
     Inr (d\<lparr>transactions := filter (\<lambda>t. t_id t \<noteq> transaction_id) (transactions d)\<rparr>)"

definition delete_all_user_transactions :: "db \<Rightarrow> string \<Rightarrow> error + db" where
  "delete_all_user_transactions d username =
     Inr (d\<lparr>transactions := filter (\<lambda>t. t_username t \<noteq> username) (transactions d)\<rparr>)"

subsection \<open>Users\<close>

text \<open>
  The table \<^verbatim>\<open>users\<close> has \<^verbatim>\<open>username\<close> as its primary key and a \<^verbatim>\<open>CHECK\<close> on \<^verbatim>\<open>role\<close>; an
  \<^verbatim>\<open>INSERT\<close> that breaks either raises \<^verbatim>\<open>sqlite3.IntegrityError\<close>.
\<close>

definition check_role :: "string \<Rightarrow> bool" where
  "check_role r = (r = ''admin'' \<or> r = ''user'')"

definition insert_user :: "user \<Rightarrow> user list \<Rightarrow> error + user list" where
  "insert_user u us =
     (if list_ex (\<lambda>v. u_username v = u_username u) us \<or> \<not> check_role (u_role u)
      then Inl IntegrityError else Inr (us @ [u]))"

text \<open>
  \<^verbatim>\<open>add_user\<close> hashes the password and inserts the row inside one \<^verbatim>\<open>try\<close>: an
  \<^verbatim>\<open>IntegrityError\<close> becomes \<^verbatim>\<open>(False, "Username already exists")\<close>, any other exception
  \<^verbatim>\<open>(False, str(e))\<close>, and nothing is inserted in either case.
\<close>

definition add_user ::
  "library \<Rightarrow> string \<Rightarrow> string \<Rightarrow> db \<Rightarrow> string \<Rightarrow> string \<Rightarrow> string \<Rightarrow> (bool \<times> string) \<times> db" where
  "add_user lib salt now d username password role =
     (case hashpw lib password salt of
        Inl msg \<Rightarrow> ((False, msg), d)
      | Inr hashed \<Rightarrow>
          (case insert_user \<lparr>u_username = username, u_password_hash = hashed,
                             u_role = role, u_created_at = now\<rparr> (users d) of
             Inl e \<Rightarrow> ((False, ''Username already exists''), d)
           | Inr us \<Rightarrow> ((True, ''User created successfully''), d\<lparr>users := us\<rparr>)))"

text \<open>
  \<^verbatim>\<open>cursor.fetchone()\<close> is the first row of the selection, or \<^verbatim>\<open>None\<close>. The password is
  encoded and checked only when there is a row, and outside any \<^verbatim>\<open>try\<close>: an exception of
  the library leaves \<^verbatim>\<open>verify_user\<close>.
\<close>

definition verify_user ::
  "library \<Rightarrow> db \<Rightarrow> string \<Rightarrow> string \<Rightarrow> error + (bool \<times> string option)" where
  "verify_user lib d username password =
     (case find (\<lambda>u. u_username u = username) (users d) of
        Some result \<Rightarrow>
          (case checkpw lib password (u_password_hash result) of
             Inl msg \<Rightarrow> Inl (ValueError msg)
           | Inr matches \<Rightarrow>
               if matches then Inr (True, Some (u_role result)) else Inr (False, None))
      | None \<Rightarrow> Inr (False, None))"

text \<open>
  \<^verbatim>\<open>update_password\<close> hashes the new password and runs its \<^verbatim>\<open>UPDATE\<close> inside one \<^verbatim>\<open>try\<close>.
  The \<^verbatim>\<open>UPDATE\<close> rewrites the rows of that username, of which there may be none, and
  breaks no constraint; an exception of the library becomes \<^verbatim>\<open>(False, str(e))\<close>.
\<close>

definition update_password ::
  "library \<Rightarrow> string \<Rightarrow> db \<Rightarrow> string \<Rightarrow> string \<Rightarrow> (bool \<times> string) \<times> db" where
  "update_password lib salt d username new_password =
     (case hashpw lib new_password salt of
        Inl msg \<Rightarrow> ((False, msg), d)
      | Inr hashed \<Rightarrow>
          ((True, ''Password updated successfully''),
           d\<lparr>users := map (\<lambda>u. if u_username u = username
                                 then u\<lparr>u_password_hash := hashed\<rparr> else u)
                           (users d)\<rparr>))"

subsection \<open>Initialisation\<close>

definition default_categories :: "category list" where
  "default_categories =
     [\<lparr>c_name = ''Sales'', c_type = ''Income''\<rparr>, \<lparr>c_name = ''Services'', c_type = ''Income''\<rparr>,
      \<lparr>c_name = ''Other Income'', c_type = ''Income''\<rparr>,
      \<lparr>c_name = ''Rent'', c_type = ''Expense''\<rparr>, \<lparr>c_name = ''Supplies'', c_type = ''Expense''\<rparr>,
      \<lparr>c_name = ''Utilities'', c_type = ''Expense''\<rparr>,
      \<lparr>c_name = ''Marketing'', c_type = ''Expense''\<rparr>, \<lparr>c_name = ''Insurance'', c_type = ''Expense''\<rparr>,
      \<lparr>c_name = ''Other Expense'', c_type = ''Expense''\<rparr>]"

text \<open>\<^verbatim>\<open>INSERT OR IGNORE\<close>: a row that breaks \<^verbatim>\<open>UNIQUE\<close> or \<^verbatim>\<open>CHECK\<close> is skipped.\<close>

definition insert_or_ignore_category :: "category list \<Rightarrow> category \<Rightarrow> category list" where
  "insert_or_ignore_category cs c =
     (if list_ex (\<lambda>c'. c_name c' = c_name c) cs \<or> \<not> check_type (c_type c) then cs
      else cs @ [c])"

text \<open>
  \<^verbatim>\<open>init_database\<close> on a store whose tables exist with the present columns (a file that
  does not exist yet is \<open>empty_db\<close>): the \<^verbatim>\<open>CREATE TABLE IF NOT EXISTS\<close> statements and the
  migration of a table without \<^verbatim>\<open>username\<close> change nothing there. What is left is the
  seeding of the categories and of the default admin. All of it runs in one \<^verbatim>\<open>with\<close> block.
  The password is hashed only when no user has the role \<^verbatim>\<open>admin\<close>.
\<close>

definition init_database :: "library \<Rightarrow> string \<Rightarrow> string \<Rightarrow> db \<Rightarrow> error + db" where
  "init_database lib salt now d =
     (let d1 = d\<lparr>categories := foldl insert_or_ignore_category (categories d) default_categories\<rparr>
      in if length (filter (\<lambda>u. u_role u = ''admin'') (users d1)) = 0
         then (case hashpw lib ''admin123'' salt of
                 Inl msg \<Rightarrow> Inl (ValueError msg)
               | Inr hashed \<Rightarrow>
                   (case insert_user \<lparr>u_username = ''admin'', u_password_hash = hashed,
                                      u_role = ''admin'', u_created_at = now\<rparr> (users d1) of
                      Inl e \<Rightarrow> Inl e
                    | Inr us \<Rightarrow> Inr (d1\<lparr>users := us\<rparr>)))
         else Inr d1)"

subsection \<open>The stores the class produces\<close>

text \<open>
  Every method runs on an object of the class, and \<^verbatim>\<open>__init__\<close> runs \<^verbatim>\<open>init_database\<close> on the
  file before the object exists. So a store on which a method runs has been through
  \<^verbatim>\<open>init_database\<close> on the new file first, and then through any number of calls, each of
  which leaves the store as it was when it raises.
\<close>

inductive reachable :: "library \<Rightarrow> db \<Rightarrow> bool" for lib :: library where
  by_first_init:
    "init_database lib salt now empty_db = Inr d \<Longrightarrow> reachable lib d"
| by_init:
    "reachable lib d \<Longrightarrow> init_database lib salt now d = Inr d' \<Longrightarrow> reachable lib d'"
| by_add_user:
    "reachable lib d \<Longrightarrow> add_user lib salt now d username password role = (res, d')
       \<Longrightarrow> reachable lib d'"
| by_update_password:
    "reachable lib d \<Longrightarrow> update_password lib salt d username new_password = (res, d')
       \<Longrightarrow> reachable lib d'"
| by_add_transaction:
    "reachable lib d
       \<Longrightarrow> add_transaction now d username date type category amount description = Inr d'
       \<Longrightarrow> reachable lib d'"
| by_update_transaction:
    "reachable lib d
       \<Longrightarrow> update_transaction d transaction_id date type category amount description = Inr d'
       \<Longrightarrow> reachable lib d'"
| by_delete_transaction:
    "reachable lib d \<Longrightarrow> delete_transaction d transaction_id = Inr d' \<Longrightarrow> reachable lib d'"
| by_delete_all_user_transactions:
    "reachable lib d \<Longrightarrow> delete_all_user_transactions d username = Inr d'
       \<Longrightarrow> reachable lib d'"

subsection \<open>Python's formatting of integers\<close>

text \<open>Decimal digits of a number, as \<^verbatim>\<open>%d\<close> and Python's \<^verbatim>\<open>str\<close> print them.\<close>

definition digit_char :: "nat \<Rightarrow> char" where
  "digit_char n = char_of (48 + n)"

function digits :: "nat \<Rightarrow> string" where
  "digits n = (if n < 10 then [digit_char n] else digits (n div 10) @ [digit_char (n mod 10)])"
  by pat_completeness auto
termination
  by (relation "measure (\<lambda>n. n)") auto

declare digits.simps [simp del]

definition zero_pad :: "nat \<Rightarrow> string \<Rightarrow> string" where
  "zero_pad w s = replicate (w - length s) (CHR ''0'') @ s"

text \<open>Python's \<^verbatim>\<open>str(year)\<close> and \<^verbatim>\<open>f'{month:02d}'\<close> on an \<^verbatim>\<open>int\<close>; the sign comes first.\<close>

definition py_str :: "int \<Rightarrow> string" where
  "py_str i = (if i < 0 then CHR ''-'' # digits (nat (- i)) else digits (nat i))"

definition py_format_02d :: "int \<Rightarrow> string" where
  "py_format_02d i =
     (if i < 0 then CHR ''-'' # zero_pad 1 (digits (nat (- i))) else zero_pad 2 (digits (nat i)))"

subsection \<open>Queries\<close>

text \<open>
  The \<^verbatim>\<open>SELECT\<close> of \<^verbatim>\<open>get_all_transactions\<close>: the rows of the user, with
  \<^verbatim>\<open>ORDER BY date DESC, id DESC\<close>, which is the reverse of the ascending order on the pairs
  of date text and id. The column \<^verbatim>\<open>date\<close> is \<^verbatim>\<open>TEXT\<close> and is ordered as text.
\<close>

definition select_transactions :: "db \<Rightarrow> string \<Rightarrow> transaction list" where
  "select_transactions d username =
     rev (sort_key (\<lambda>t. (t_date t, t_id t))
            (filter (\<lambda>t. t_username t = username) (transactions d)))"

text \<open>The columns \<^verbatim>\<open>get_all_transactions\<close> returns, \<^verbatim>\<open>date\<close> converted by \<^verbatim>\<open>to_datetime\<close>.\<close>

record txn_row =
  r_id :: int
  r_date :: timestamp
  r_type :: string
  r_category :: string
  r_amount :: real
  r_description :: "string option"
  r_created_at :: string

definition row_of :: "transaction \<Rightarrow> timestamp \<Rightarrow> txn_row" where
  "row_of t dt = \<lparr>r_id = t_id t, r_date = dt, r_type = t_type t, r_category = t_category t,
                  r_amount = t_amount t, r_description = t_description t,
                  r_created_at = t_created_at t\<rparr>"

text \<open>
  \<^verbatim>\<open>pandas.to_datetime\<close> returns a column as long as the one it is given; were it not, the
  assignment to \<^verbatim>\<open>df['date']\<close> would raise.
\<close>

definition length_mismatch :: string where
  "length_mismatch = ''Length of values does not match length of index''"

definition get_all_transactions :: "library \<Rightarrow> db \<Rightarrow> string \<Rightarrow> error + txn_row list" where
  "get_all_transactions lib d username =
     (let df = select_transactions d username
      in case to_datetime lib (map t_date df) of
           Inl msg \<Rightarrow> Inl (ValueError msg)
         | Inr ds \<Rightarrow> if length ds = length df then Inr (map2 row_of df ds)
                     else Inl (ValueError length_mismatch))"

text \<open>
  \<^verbatim>\<open>GROUP BY key\<close>: one group for every key that occurs among the selected rows, holding
  the rows of that key in the order of the table (SQLite sorts the rows by the key and
  keeps rows of one key in the order it read them). The groups come out in ascending order
  of the key: that is what \<^verbatim>\<open>ORDER BY date\<close> asks for in \<^verbatim>\<open>get_cumulative_balance\<close>, and what
  the sorting gives in \<^verbatim>\<open>get_monthly_summary\<close>, where the query does not ask for an order.
\<close>

definition group_rows :: "('r \<Rightarrow> 'k::linorder) \<Rightarrow> 'r list \<Rightarrow> ('k \<times> 'r list) list" where
  "group_rows key rows =
     map (\<lambda>k. (k, filter (\<lambda>r. key r = k) rows)) (sort (remdups (map key rows)))"

text \<open>
  The condition \<^verbatim>\<open>strftime('%Y', date) = ? AND strftime('%m', date) = ?\<close> with the
  parameters \<^verbatim>\<open>str(year)\<close> and \<^verbatim>\<open>f'{month:02d}'\<close>. A comparison with \<^verbatim>\<open>NULL\<close> selects nothing.
\<close>

definition sql_in_month :: "library \<Rightarrow> int \<Rightarrow> int \<Rightarrow> transaction \<Rightarrow> bool" where
  "sql_in_month lib year month t =
     (strftime lib ''%Y'' (t_date t) = Some (py_str year)
      \<and> strftime lib ''%m'' (t_date t) = Some (py_format_02d month))"

definition get_monthly_summary ::
  "library \<Rightarrow> db \<Rightarrow> string \<Rightarrow> int \<Rightarrow> int \<Rightarrow> (string \<times> string \<times> real) list" where
  "get_monthly_summary lib d username year month =
     map (\<lambda>((c, ty), g). (c, ty, sql_sum lib (map t_amount g)))
       (group_rows (\<lambda>t. (t_category t, t_type t))
          (filter (\<lambda>t. t_username t = username \<and> sql_in_month lib year month t)
             (transactions d)))"

text \<open>
  \<^verbatim>\<open>Series.cumsum\<close> on doubles: the first entry as it is, and then each entry added to
  the sum so far.
\<close>

fun cumsum_from :: "(real \<Rightarrow> real \<Rightarrow> real) \<Rightarrow> real \<Rightarrow> real list \<Rightarrow> real list" where
  "cumsum_from f acc [] = []"
| "cumsum_from f acc (x # xs) = f acc x # cumsum_from f (f acc x) xs"

fun cumsum :: "(real \<Rightarrow> real \<Rightarrow> real) \<Rightarrow> real list \<Rightarrow> real list" where
  "cumsum f [] = []"
| "cumsum f (x # xs) = x # cumsum_from f x xs"

text \<open>\<^verbatim>\<open>CASE WHEN type = 'Income' THEN amount ELSE -amount END\<close>.\<close>

definition daily_change :: "transaction \<Rightarrow> real" where
  "daily_change t = (if t_type t = ''Income'' then t_amount t else - t_amount t)"

text \<open>A row of the result: \<^verbatim>\<open>date\<close>, \<^verbatim>\<open>daily_change\<close>, \<^verbatim>\<open>cumulative_balance\<close>.\<close>

definition get_cumulative_balance ::
  "library \<Rightarrow> db \<Rightarrow> string \<Rightarrow> error + (timestamp \<times> real \<times> real) list" where
  "get_cumulative_balance lib d username =
     (let df = map (\<lambda>(k, g). (k, sql_sum lib (map daily_change g)))
                 (group_rows t_date (filter (\<lambda>t. t_username t = username) (transactions d)))
      in case to_datetime lib (map fst df) of
           Inl msg \<Rightarrow> Inl (ValueError msg)
         | Inr ds \<Rightarrow>
             if length ds = length df
             then Inr (zip ds (zip (map snd df) (cumsum (fadd lib) (map snd df))))
             else Inl (ValueError length_mismatch))"

subsection \<open>The month's summary computed by the client\<close>

text \<open>
  The dashboard of \<^verbatim>\<open>app.py\<close> keeps the rows of \<^verbatim>\<open>get_all_transactions\<close> whose
  \<^verbatim>\<open>date.dt.year\<close> and \<^verbatim>\<open>date.dt.month\<close> are the selected ones (\<open>in_month\<close>).
  \<open>client_monthly_summary\<close> follows the specification's cross-check: it filters like
  that and then adds the amounts up by hand, one row after the other, into a table of
  totals per category and type.
\<close>

definition in_month :: "int \<Rightarrow> int \<Rightarrow> txn_row \<Rightarrow> bool" where
  "in_month year month r = (dt_year (r_date r) = Some year \<and> dt_month (r_date r) = Some month)"

fun add_total ::
  "(real \<Rightarrow> real \<Rightarrow> real) \<Rightarrow> 'k \<Rightarrow> real \<Rightarrow> ('k \<times> real) list \<Rightarrow> ('k \<times> real) list" where
  "add_total f k a [] = [(k, a)]"
| "add_total f k a ((k', s) # rest) =
     (if k' = k then (k', f s a) # rest else (k', s) # add_total f k a rest)"

definition client_monthly_summary ::
  "library \<Rightarrow> txn_row list \<Rightarrow> int \<Rightarrow> int \<Rightarrow> (string \<times> string \<times> real) list" where
  "client_monthly_summary lib rows year month =
     map (\<lambda>((c, ty), total). (c, ty, total))
       (foldl (\<lambda>acc r. add_total (fadd lib) (r_category r, r_type r) (r_amount r) acc) []
          (filter (in_month year month) rows))"

subsection \<open>A library and stores for the examples\<close>

text \<open>
  The theorems below hold for every library. Their examples need one. \<open>sample_library\<close>
  gives, on the values that occur in the examples, what the libraries give:
  \<^item> \<^verbatim>\<open>bcrypt\<close> from version 5.0 on raises a \<^verbatim>\<open>ValueError\<close> on a password of more than 72 bytes;
    a short password is hashed here by putting the two characters of the salt in front;
  \<^item> \<open>sample_dates\<close> lists the date texts of the examples, each with the format in which
    \<^verbatim>\<open>pandas.to_datetime\<close> reads it and the \<^verbatim>\<open>Timestamp\<close> it gives; a column is converted when
    all its texts are listed under one format, and \<^verbatim>\<open>pandas.to_datetime\<close> raises on a text
    that is no date, such as \<^verbatim>\<open>soon\<close> (the text of its exception is shortened here);
  \<^item> SQLite's \<^verbatim>\<open>strftime\<close> reads a listed text of the form \<^verbatim>\<open>YYYY-MM-DD\<close>, giving its first four
    characters for \<^verbatim>\<open>%Y\<close> and its sixth and seventh for \<^verbatim>\<open>%m\<close>, and gives \<^verbatim>\<open>NULL\<close> on a text
    with slashes;
  \<^item> the amounts of the examples are whole numbers, whose sums as doubles are exact.
\<close>

definition too_long :: string where
  "too_long = ''password cannot be longer than 72 bytes, truncate manually if necessary (e.g. my_password[:72])''"

definition sample_hashpw :: "string \<Rightarrow> string \<Rightarrow> string + string" where
  "sample_hashpw password salt =
     (if 72 < length password then Inl too_long else Inr (salt @ password))"

definition sample_checkpw :: "string \<Rightarrow> string \<Rightarrow> string + bool" where
  "sample_checkpw password hashed =
     (if 72 < length password then Inl too_long else Inr (drop 2 hashed = password))"

datatype date_format = Year_Month_Day_dashes | Year_Month_Day_slashes | Month_Day_Year_slashes

definition sample_dates :: "(string \<times> date_format \<times> timestamp) list" where
  "sample_dates =
     [(''2024-01-05'', Year_Month_Day_dashes, Timestamp 2024 1 5 0),
      (''2024-01-20'', Year_Month_Day_dashes, Timestamp 2024 1 20 0),
      (''2024-02-01'', Year_Month_Day_dashes, Timestamp 2024 2 1 0),
      (''2024/01/05'', Year_Month_Day_slashes, Timestamp 2024 1 5 0),
      (''12/31/2023'', Month_Day_Year_slashes, Timestamp 2023 12 31 0),
      (''01/05/2024'', Month_Day_Year_slashes, Timestamp 2024 1 5 0)]"

definition sample_to_datetime :: "string list \<Rightarrow> string + timestamp list" where
  "sample_to_datetime col =
     (case those (map (map_of sample_dates) col) of
        None \<Rightarrow> Inl ''Unknown datetime string format''
      | Some entries \<Rightarrow>
          if length (remdups (map fst entries)) \<le> 1 then Inr (map snd entries)
          else Inl ''time data does not match format'')"

definition sample_strftime :: "string \<Rightarrow> string \<Rightarrow> string option" where
  "sample_strftime format text =
     (case map_of sample_dates text of
        Some (Year_Month_Day_dashes, ts) \<Rightarrow>
          if format = ''%Y'' then Some (take 4 text)
          else if format = ''%m'' then Some (take 2 (drop 5 text))
          else None
      | _ \<Rightarrow> None)"

definition sample_library :: library where
  "sample_library =
     \<lparr>hashpw = sample_hashpw, checkpw = sample_checkpw, strftime = sample_strftime,
      sql_sum = sum_list, to_datetime = sample_to_datetime, fadd = (+)\<rparr>"

definition long_password :: string where
  "long_password = replicate 73 (CHR ''a'')"

text \<open>A store with three users and four transactions.\<close>

definition sample_users :: "user list" where
  "sample_users =
     [\<lparr>u_username = ''admin'', u_password_hash = ''s0admin123'', u_role = ''admin'',
       u_created_at = ''2024-01-01 08:00:00''\<rparr>,
      \<lparr>u_username = ''alice'', u_password_hash = ''s1secret1'', u_role = ''user'',
       u_created_at = ''2024-01-02 08:00:00''\<rparr>,
      \<lparr>u_username = ''bob'', u_password_hash = ''s2hunter22'', u_role = ''user'',
       u_created_at = ''2024-01-03 08:00:00''\<rparr>]"

definition sample_transactions :: "transaction list" where
  "sample_transactions =
     [\<lparr>t_id = 1, t_username = ''alice'', t_date = ''2024-01-05'', t_type = ''Income'',
       t_category = ''Sales'', t_amount = 100, t_description = None,
       t_created_at = ''2024-01-05 09:00:00''\<rparr>,
      \<lparr>t_id = 2, t_username = ''alice'', t_date = ''2024-01-05'', t_type = ''Expense'',
       t_category = ''Rent'', t_amount = 40, t_description = Some ''office'',
       t_created_at = ''2024-01-05 09:05:00''\<rparr>,
      \<lparr>t_id = 3, t_username = ''bob'', t_date = ''2024-01-20'', t_type = ''Expense'',
       t_category = ''Supplies'', t_amount = 15, t_description = None,
       t_created_at = ''2024-01-20 10:00:00''\<rparr>,
      \<lparr>t_id = 4, t_username = ''alice'', t_date = ''2024-02-01'', t_type = ''Income'',
       t_category = ''Sales'', t_amount = 50, t_description = None,
       t_created_at = ''2024-02-01 09:00:00''\<rparr>]"

definition sample_db :: db where
  "sample_db = \<lparr>transactions = sample_transactions, transactions_seq = 4,
                 categories = default_categories, users = sample_users\<rparr>"

text \<open>The small store without the transactions of \<^verbatim>\<open>alice\<close>.\<close>

definition bob_only_db :: db where
  "bob_only_db = sample_db\<lparr>transactions := filter (\<lambda>t. t_username t = ''bob'') sample_transactions\<rparr>"

text \<open>
  Two stores that \<^verbatim>\<open>add_transaction\<close>, which takes any text for the date, produces from
  the users above: one with two dates written month first, one with a date written with
  slashes.
\<close>

definition month_first_transactions :: "transaction list" where
  "month_first_transactions =
     [\<lparr>t_id = 1, t_username = ''alice'', t_date = ''12/31/2023'', t_type = ''Income'',
       t_category = ''Sales'', t_amount = 100, t_description = None,
       t_created_at = ''2024-01-05 09:00:00''\<rparr>,
      \<lparr>t_id = 2, t_username = ''alice'', t_date = ''01/05/2024'', t_type = ''Expense'',
       t_category = ''Rent'', t_amount = 40, t_description = None,
       t_created_at = ''2024-01-05 09:05:00''\<rparr>]"

definition month_first_db :: db where
  "month_first_db = \<lparr>transactions = month_first_transactions, transactions_seq = 2,
                      categories = default_categories, users = sample_users\<rparr>"

definition slashes_transactions :: "transaction list" where
  "slashes_transactions =
     [\<lparr>t_id = 1, t_username = ''alice'', t_date = ''2024/01/05'', t_type = ''Income'',
       t_category = ''Sales'', t_amount = 100, t_description = None,
       t_created_at = ''2024-01-05 09:00:00''\<rparr>]"

definition slashes_db :: db where
  "slashes_db = \<lparr>transactions = slashes_transactions, transactions_seq = 1,
                  categories = default_categories, users = sample_users\<rparr>"

text \<open>A store with a date that is no date: \<^verbatim>\<open>pandas.to_datetime\<close> raises on it.\<close>

definition unreadable_transactions :: "transaction list" where
  "unreadable_transactions =
     [\<lparr>t_id = 1, t_username = ''alice'', t_date = ''soon'', t_type = ''Income'',
       t_category = ''Sales'', t_amount = 100, t_description = None,
       t_created_at = ''2024-01-05 09:00:00''\<rparr>]"

definition unreadable_db :: db where
  "unreadable_db = \<lparr>transactions = unreadable_transactions, transactions_seq = 1,
                     categories = default_categories, users = sample_users\<rparr>"

section \<open>Deleting a transaction\<close>

text \<open>
  C7. For every store and every id, \<^verbatim>\<open>delete_transaction(id)\<close> raises no error; calling it
  a second time gives the store the first call gave; and when no transaction has that id
  the store is left as it was.
\<close>

theorem delete_transaction_idempotent:
  "(\<exists>d1. delete_transaction d i = Inr d1 \<and> delete_transaction d1 i = Inr d1)
   \<and> (\<not> list_ex (\<lambda>t. t_id t = i) (transactions d) \<longrightarrow> delete_transaction d i = Inr d)"
proof -
  have absent: "filter (\<lambda>t. t_id t \<noteq> i) (transactions d) = transactions d"
    if "\<not> list_ex (\<lambda>t. t_id t = i) (transactions d)"
    using that by (simp add: list_ex_iff filter_id_conv)
  show ?thesis
    by (simp add: delete_transaction_def absent)
qed

theorem delete_transaction_idempotent_witness:
  "\<not> list_ex (\<lambda>t. t_id t = 9) (transactions sample_db)
   \<and> delete_transaction sample_db 9 = Inr sample_db"
proof -
  have h: "\<not> list_ex (\<lambda>t. t_id t = 9) (transactions sample_db)"
    by (simp add: sample_db_def sample_transactions_def)
  with delete_transaction_idempotent [of sample_db 9] show ?thesis
    by blast
qed

section \<open>Updating a transaction\<close>

text \<open>
  C4, as the code has it. For every id that no transaction of the store has,
  \<^verbatim>\<open>update_transaction\<close> raises nothing, whatever the new values are, and leaves the store
  as it was: there is no \<^verbatim>\<open>NotFoundError\<close>.
\<close>

theorem update_transaction_absent_id:
  assumes "\<not> list_ex (\<lambda>t. t_id t = i) (transactions d)"
  shows "update_transaction d i date type category amount description = Inr d"
proof -
  from assms have "\<forall>t \<in> set (transactions d). t_id t \<noteq> i"
    by (simp add: list_ex_iff)
  then have "map (\<lambda>t. if t_id t = i
                      then t\<lparr>t_date := date, t_type := type, t_category := category,
                             t_amount := amount, t_description := description\<rparr>
                      else t) (transactions d) = transactions d"
    by (simp add: map_idI)
  with assms show ?thesis
    by (simp add: update_transaction_def)
qed

theorem update_transaction_absent_id_witness:
  "\<not> list_ex (\<lambda>t. t_id t = 9) (transactions sample_db)
   \<and> update_transaction sample_db 9 ''2024-03-01'' ''Refund'' ''Sales'' (- 5) None = Inr sample_db"
proof -
  have h: "\<not> list_ex (\<lambda>t. t_id t = 9) (transactions sample_db)"
    by (simp add: sample_db_def sample_transactions_def)
  from update_transaction_absent_id [OF h] h show ?thesis
    by blast
qed

text \<open>
  The claim as the specification words it asks for an error on an absent id. On the small
  store, which has no transaction 9, the call returns and the store is the same.
\<close>

theorem update_transaction_not_found_counterexample:
  "\<not> list_ex (\<lambda>t. t_id t = 9) (transactions sample_db)
   \<and> \<not> isl (update_transaction sample_db 9 ''2024-03-01'' ''Income'' ''Sales'' 10 None)"
  by (simp add: update_transaction_def sample_db_def sample_transactions_def)

section \<open>Adding a transaction\<close>

text \<open>
  C2, as the code has it. \<^verbatim>\<open>add_transaction\<close> fails with \<^verbatim>\<open>IntegrityError\<close>, and the store
  stays as it was, whenever the amount is zero or negative or the type is neither
  \<^verbatim>\<open>Income\<close> nor \<^verbatim>\<open>Expense\<close>. With a positive amount (0.01 for one) and one of the two types
  the row is inserted, whatever the category is: the category is not looked up in the
  table of categories.
\<close>

theorem add_transaction_checks:
  "(amount \<le> 0 \<or> (type \<noteq> ''Income'' \<and> type \<noteq> ''Expense'') \<longrightarrow>
      add_transaction now d username date type category amount description = Inl IntegrityError
      \<and> store_after d (add_transaction now d username date type category amount description) = d)
   \<and> (0 < amount \<and> (type = ''Income'' \<or> type = ''Expense'') \<longrightarrow>
        (\<exists>d'. add_transaction now d username date type category amount description = Inr d'
           \<and> transactions d' = transactions d @
               [\<lparr>t_id = next_id d, t_username = username, t_date = date, t_type = type,
                 t_category = category, t_amount = amount, t_description = description,
                 t_created_at = now\<rparr>]))
   \<and> ((type = ''Income'' \<or> type = ''Expense'') \<longrightarrow>
        \<not> isl (add_transaction now d username date type category 0.01 description))"
  by (auto simp add: add_transaction_def check_type_def check_amount_def store_after_def)

theorem add_transaction_checks_witness:
  "add_transaction ''2024-03-01 09:00:00'' sample_db ''alice'' ''2024-03-01'' ''Income'' ''Sales'' 0 None
     = Inl IntegrityError
   \<and> add_transaction ''2024-03-01 09:00:00'' sample_db ''alice'' ''2024-03-01'' ''Income'' ''Sales'' 0.01 None
     \<noteq> Inl IntegrityError"
proof -
  have "(0::real) \<le> 0 \<or> (''Income'' \<noteq> ''Income'' \<and> ''Income'' \<noteq> ''Expense'')"
    by simp
  moreover have "''Income'' = ''Income'' \<or> ''Income'' = ''Expense''"
    by simp
  ultimately show ?thesis
    using add_transaction_checks [of 0 "''Income''" "''2024-03-01 09:00:00''" sample_db "''alice''"
        "''2024-03-01''" "''Sales''" None]
    by auto
qed

text \<open>
  The claim as the specification words it has the insertion fail on a category that the
  table of categories does not hold. \<^verbatim>\<open>Bogus\<close> is no category of the small store, and the
  row goes in.
\<close>

theorem add_transaction_category_counterexample:
  "\<not> list_ex (\<lambda>c. c_name c = ''Bogus'') (categories sample_db)
   \<and> add_transaction ''2024-03-01 09:00:00'' sample_db ''alice'' ''2024-03-01'' ''Income'' ''Bogus'' 5 None
     = Inr (sample_db\<lparr>transactions := sample_transactions @
              [\<lparr>t_id = 5, t_username = ''alice'', t_date = ''2024-03-01'', t_type = ''Income'',
                t_category = ''Bogus'', t_amount = 5, t_description = None,
                t_created_at = ''2024-03-01 09:00:00''\<rparr>],
            transactions_seq := 5\<rparr>)"
  by (simp add: add_transaction_def check_type_def check_amount_def sample_db_def
      default_categories_def next_id_def max_id_def sample_transactions_def)

section \<open>The owner's scope\<close>

lemma filter_conj_split:
  "filter (\<lambda>x. P x \<and> Q x) xs = filter Q (filter P xs)"
  by (induction xs) auto

lemma get_all_transactions_scope:
  assumes "filter (\<lambda>t. t_username t = b) (transactions d)
             = filter (\<lambda>t. t_username t = b) (transactions d')"
  shows "get_all_transactions lib d b = get_all_transactions lib d' b"
  unfolding get_all_transactions_def select_transactions_def assms ..

lemma get_monthly_summary_scope:
  assumes "filter (\<lambda>t. t_username t = b) (transactions d)
             = filter (\<lambda>t. t_username t = b) (transactions d')"
  shows "get_monthly_summary lib d b year month = get_monthly_summary lib d' b year month"
  unfolding get_monthly_summary_def filter_conj_split assms ..

lemma get_cumulative_balance_scope:
  assumes "filter (\<lambda>t. t_username t = b) (transactions d)
             = filter (\<lambda>t. t_username t = b) (transactions d')"
  shows "get_cumulative_balance lib d b = get_cumulative_balance lib d' b"
  unfolding get_cumulative_balance_def assms ..

text \<open>
  C5, as the code has it. What a user \<open>b\<close> gets from \<^verbatim>\<open>get_all_transactions\<close>,
  \<^verbatim>\<open>get_monthly_summary\<close> and \<^verbatim>\<open>get_cumulative_balance\<close> depends on the transactions of
  \<open>b\<close> alone: two stores that hold the same transactions of \<open>b\<close> give the same answers,
  whatever the other users own. \<^verbatim>\<open>delete_all_user_transactions\<close> and \<^verbatim>\<open>add_transaction\<close>
  for \<open>b\<close> leave every transaction of another user in place. \<^verbatim>\<open>delete_transaction\<close> takes
  an id and no owner: it removes the transaction of that id, whoever owns it.
\<close>

theorem owner_scope:
  "(filter (\<lambda>t. t_username t = b) (transactions d)
      = filter (\<lambda>t. t_username t = b) (transactions d') \<longrightarrow>
      get_all_transactions lib d b = get_all_transactions lib d' b
      \<and> get_monthly_summary lib d b year month = get_monthly_summary lib d' b year month
      \<and> get_cumulative_balance lib d b = get_cumulative_balance lib d' b)
   \<and> (\<forall>t \<in> set (transactions d). t_username t \<noteq> b \<longrightarrow>
        t \<in> set (transactions (store_after d (delete_all_user_transactions d b)))
        \<and> t \<in> set (transactions (store_after d
                  (add_transaction now d b date type category amount description))))
   \<and> (\<forall>t \<in> set (transactions d). t_id t = i \<longrightarrow>
        t \<notin> set (transactions (store_after d (delete_transaction d i))))"
proof (intro conjI impI ballI)
  assume eq: "filter (\<lambda>t. t_username t = b) (transactions d)
                = filter (\<lambda>t. t_username t = b) (transactions d')"
  show "get_all_transactions lib d b = get_all_transactions lib d' b"
    using eq by (rule get_all_transactions_scope)
  show "get_monthly_summary lib d b year month = get_monthly_summary lib d' b year month"
    using eq by (rule get_monthly_summary_scope)
  show "get_cumulative_balance lib d b = get_cumulative_balance lib d' b"
    using eq by (rule get_cumulative_balance_scope)
next
  fix t assume "t \<in> set (transactions d)" "t_username t \<noteq> b"
  then show "t \<in> set (transactions (store_after d (delete_all_user_transactions d b)))"
    by (simp add: delete_all_user_transactions_def store_after_def)
next
  fix t assume "t \<in> set (transactions d)" "t_username t \<noteq> b"
  then show "t \<in> set (transactions (store_after d
                (add_transaction now d b date type category amount description)))"
    by (simp add: add_transaction_def store_after_def)
next
  fix t assume "t \<in> set (transactions d)" "t_id t = i"
  then show "t \<notin> set (transactions (store_after d (delete_transaction d i)))"
    by (simp add: delete_transaction_def store_after_def)
qed

theorem owner_scope_witness:
  "filter (\<lambda>t. t_username t = ''bob'') (transactions sample_db)
     = filter (\<lambda>t. t_username t = ''bob'') (transactions bob_only_db)
   \<and> get_all_transactions sample_library sample_db ''bob'' = get_all_transactions sample_library bob_only_db ''bob''
   \<and> get_monthly_summary sample_library sample_db ''bob'' 2024 1 = get_monthly_summary sample_library bob_only_db ''bob'' 2024 1
   \<and> get_cumulative_balance sample_library sample_db ''bob'' = get_cumulative_balance sample_library bob_only_db ''bob''
   \<and> hd sample_transactions \<in> set (transactions sample_db)
   \<and> t_username (hd sample_transactions) \<noteq> ''bob''
   \<and> t_id (hd sample_transactions) = 1
   \<and> hd sample_transactions
       \<in> set (transactions (store_after sample_db (delete_all_user_transactions sample_db ''bob'')))
   \<and> hd sample_transactions
       \<notin> set (transactions (store_after sample_db (delete_transaction sample_db 1)))"
proof -
  note inst = owner_scope [where b = "''bob''" and d = sample_db and d' = bob_only_db
      and lib = sample_library and year = 2024 and month = 1 and now = "''2024-03-01 09:00:00''"
      and date = "''2024-03-01''" and type = "''Income''" and category = "''Sales''"
      and amount = 5 and description = None and i = 1]
  have eq: "filter (\<lambda>t. t_username t = ''bob'') (transactions sample_db)
              = filter (\<lambda>t. t_username t = ''bob'') (transactions bob_only_db)"
    by (simp add: sample_db_def bob_only_db_def)
  have mem: "hd sample_transactions \<in> set (transactions sample_db)"
    by (simp add: sample_db_def sample_transactions_def)
  have own: "t_username (hd sample_transactions) \<noteq> ''bob''"
    by (simp add: sample_transactions_def)
  have ident: "t_id (hd sample_transactions) = 1"
    by (simp add: sample_transactions_def)
  from inst [THEN conjunct1] eq
  have lists: "get_all_transactions sample_library sample_db ''bob'' = get_all_transactions sample_library bob_only_db ''bob''
      \<and> get_monthly_summary sample_library sample_db ''bob'' 2024 1 = get_monthly_summary sample_library bob_only_db ''bob'' 2024 1
      \<and> get_cumulative_balance sample_library sample_db ''bob'' = get_cumulative_balance sample_library bob_only_db ''bob''"
    by (rule mp)
  from inst [THEN conjunct2, THEN conjunct1, THEN bspec, OF mem] own
  have kept: "hd sample_transactions
      \<in> set (transactions (store_after sample_db (delete_all_user_transactions sample_db ''bob'')))"
    by blast
  from inst [THEN conjunct2, THEN conjunct2, THEN bspec, OF mem] ident
  have gone: "hd sample_transactions
      \<notin> set (transactions (store_after sample_db (delete_transaction sample_db 1)))"
    by (rule mp)
  from eq lists mem own ident kept gone show ?thesis
    by (intro conjI) (simp_all only: simp_thms)
qed

text \<open>
  The claim as the specification words it has no call on behalf of another user remove a
  transaction. Transaction 1 of the small store belongs to \<^verbatim>\<open>alice\<close>; the call
  \<^verbatim>\<open>delete_transaction(1)\<close>, which is the same call whoever issues it, removes it.
\<close>

theorem delete_transaction_foreign_counterexample:
  "list_ex (\<lambda>t. t_id t = 1 \<and> t_username t = ''alice'') (transactions sample_db)
   \<and> ''alice'' \<noteq> ''bob''
   \<and> \<not> list_ex (\<lambda>t. t_id t = 1)
         (transactions (store_after sample_db (delete_transaction sample_db 1)))"
  by (simp add: sample_db_def sample_transactions_def delete_transaction_def store_after_def)

section \<open>Users and passwords\<close>

lemma find_username_None:
  "find (\<lambda>u. u_username u = n) us = None \<longleftrightarrow> \<not> list_ex (\<lambda>u. u_username u = n) us"
  by (induction us) auto

text \<open>
  What \<^verbatim>\<open>verify_user\<close> does, for every library: without a user of that name it returns
  \<^verbatim>\<open>(False, None)\<close> and calls no library; with one, it returns \<^verbatim>\<open>(False, None)\<close> when
  \<^verbatim>\<open>checkpw\<close> says no, and raises when the encoding of the password or \<^verbatim>\<open>checkpw\<close> raises.
\<close>

lemma verify_user_absent:
  assumes "\<not> list_ex (\<lambda>u. u_username u = username) (users d)"
  shows "verify_user lib d username password = Inr (False, None)"
  using assms by (simp add: verify_user_def find_username_None [symmetric])

lemma verify_user_mismatch:
  assumes "find (\<lambda>u. u_username u = username) (users d) = Some u"
    and "checkpw lib password (u_password_hash u) = Inr False"
  shows "verify_user lib d username password = Inr (False, None)"
  using assms by (simp add: verify_user_def)

lemma verify_user_raises:
  assumes "find (\<lambda>u. u_username u = username) (users d) = Some u"
    and "checkpw lib password (u_password_hash u) = Inl msg"
  shows "verify_user lib d username password = Inl (ValueError msg)"
  using assms by (simp add: verify_user_def)

text \<open>
  C6. The claim has the caller unable to tell a missing user from a wrong password. With a
  password of 73 bytes, which is the password of no user of the small store, \<^verbatim>\<open>verify_user\<close>
  raises for \<^verbatim>\<open>alice\<close>, who exists, and returns \<^verbatim>\<open>(False, None)\<close> for \<^verbatim>\<open>nouser\<close>, who
  does not: \<^verbatim>\<open>bcrypt.checkpw\<close> is called for an existing user only, and outside any \<^verbatim>\<open>try\<close>.
\<close>

theorem verify_user_raises_for_existing_user_only:
  "list_ex (\<lambda>u. u_username u = ''alice'') (users sample_db)
   \<and> \<not> list_ex (\<lambda>u. u_username u = ''nouser'') (users sample_db)
   \<and> verify_user sample_library sample_db ''alice'' long_password = Inl (ValueError too_long)
   \<and> verify_user sample_library sample_db ''nouser'' long_password = Inr (False, None)"
  by (simp add: verify_user_def sample_db_def sample_users_def sample_library_def
      sample_checkpw_def long_password_def)

text \<open>
  C8, as the code has it. When the new password is hashed, \<^verbatim>\<open>update_password\<close> returns
  \<^verbatim>\<open>(True, "Password updated successfully")\<close>, whether a user has the username or not: the
  stored hash of that user becomes the new hash and every other user is as before, and
  without such a user the store is unchanged. When the encoding of the password or
  \<^verbatim>\<open>bcrypt.hashpw\<close> raises, it returns \<^verbatim>\<open>(False, str(e))\<close> and the store is unchanged.
\<close>

theorem update_password_outcomes:
  "(\<forall>hashed. hashpw lib new_password salt = Inr hashed \<longrightarrow>
      fst (update_password lib salt d username new_password)
        = (True, ''Password updated successfully'')
      \<and> (\<forall>u. find (\<lambda>u. u_username u = username) (users d) = Some u \<longrightarrow>
             find (\<lambda>u. u_username u = username)
               (users (snd (update_password lib salt d username new_password)))
             = Some (u\<lparr>u_password_hash := hashed\<rparr>))
      \<and> (\<forall>other. other \<noteq> username \<longrightarrow>
             find (\<lambda>u. u_username u = other)
               (users (snd (update_password lib salt d username new_password)))
             = find (\<lambda>u. u_username u = other) (users d))
      \<and> (\<not> list_ex (\<lambda>u. u_username u = username) (users d) \<longrightarrow>
             snd (update_password lib salt d username new_password) = d))
   \<and> (\<forall>msg. hashpw lib new_password salt = Inl msg \<longrightarrow>
        update_password lib salt d username new_password = ((False, msg), d))"
proof (intro conjI allI impI)
  fix msg assume "hashpw lib new_password salt = Inl msg"
  then show "update_password lib salt d username new_password = ((False, msg), d)"
    by (simp add: update_password_def)
next
  fix hashed assume h: "hashpw lib new_password salt = Inr hashed"
  define f :: "user \<Rightarrow> user" where "f = (\<lambda>u. if u_username u = username
                then u\<lparr>u_password_hash := hashed\<rparr> else u)"
  have same: "find (\<lambda>u. u_username u = username) (map f us)
                = Some (u\<lparr>u_password_hash := hashed\<rparr>)"
    if "find (\<lambda>u. u_username u = username) us = Some u" for us u
    using that by (induction us) (auto simp add: f_def split: if_splits)
  have other: "find (\<lambda>u. u_username u = n) (map f us) = find (\<lambda>u. u_username u = n) us"
    if "n \<noteq> username" for us n
    using that by (induction us) (auto simp add: f_def)
  have absent: "map f (users d) = users d"
    if "\<not> list_ex (\<lambda>u. u_username u = username) (users d)"
    using that by (simp add: list_ex_iff map_idI f_def)
  have us: "users (snd (update_password lib salt d username new_password)) = map f (users d)"
    by (simp add: update_password_def h f_def)
  show "fst (update_password lib salt d username new_password)
          = (True, ''Password updated successfully'')"
    by (simp add: update_password_def h)
  show "find (\<lambda>u. u_username u = username)
          (users (snd (update_password lib salt d username new_password)))
        = Some (u\<lparr>u_password_hash := hashed\<rparr>)"
    if "find (\<lambda>u. u_username u = username) (users d) = Some u" for u
    unfolding us using that by (rule same)
  show "find (\<lambda>u. u_username u = other)
          (users (snd (update_password lib salt d username new_password)))
        = find (\<lambda>u. u_username u = other) (users d)"
    if "other \<noteq> username" for other
    unfolding us using that by (rule other)
  show "snd (update_password lib salt d username new_password) = d"
    if "\<not> list_ex (\<lambda>u. u_username u = username) (users d)"
    using absent [OF that] by (simp add: update_password_def h f_def)
qed

theorem update_password_outcomes_witness:
  "hashpw sample_library ''newpass1'' ''s7'' = Inr ''s7newpass1''
   \<and> \<not> list_ex (\<lambda>u. u_username u = ''nouser'') (users sample_db)
   \<and> update_password sample_library ''s7'' sample_db ''nouser'' ''newpass1''
       = ((True, ''Password updated successfully''), sample_db)
   \<and> find (\<lambda>u. u_username u = ''bob'') (users sample_db)
       = Some \<lparr>u_username = ''bob'', u_password_hash = ''s2hunter22'', u_role = ''user'',
               u_created_at = ''2024-01-03 08:00:00''\<rparr>
   \<and> find (\<lambda>u. u_username u = ''bob'')
         (users (snd (update_password sample_library ''s7'' sample_db ''bob'' ''newpass1'')))
       = Some \<lparr>u_username = ''bob'', u_password_hash = ''s7newpass1'', u_role = ''user'',
               u_created_at = ''2024-01-03 08:00:00''\<rparr>
   \<and> find (\<lambda>u. u_username u = ''alice'')
         (users (snd (update_password sample_library ''s7'' sample_db ''bob'' ''newpass1'')))
       = find (\<lambda>u. u_username u = ''alice'') (users sample_db)
   \<and> hashpw sample_library long_password ''s7'' = Inl too_long
   \<and> update_password sample_library ''s7'' sample_db ''alice'' long_password
       = ((False, too_long), sample_db)"
proof -
  define bob where "bob = \<lparr>u_username = ''bob'', u_password_hash = ''s2hunter22'',
    u_role = ''user'', u_created_at = ''2024-01-03 08:00:00''\<rparr>"
  have hashed: "hashpw sample_library ''newpass1'' ''s7'' = Inr ''s7newpass1''"
    by (simp add: sample_library_def sample_hashpw_def)
  have raised: "hashpw sample_library long_password ''s7'' = Inl too_long"
    by (simp add: sample_library_def sample_hashpw_def long_password_def)
  note no = update_password_outcomes
    [where lib = sample_library and salt = "''s7''" and d = sample_db
      and username = "''nouser''" and new_password = "''newpass1''",
      THEN conjunct1, THEN spec, THEN mp, OF hashed]
  note yes = update_password_outcomes
    [where lib = sample_library and salt = "''s7''" and d = sample_db
      and username = "''bob''" and new_password = "''newpass1''",
      THEN conjunct1, THEN spec, THEN mp, OF hashed]
  note bad = update_password_outcomes
    [where lib = sample_library and salt = "''s7''" and d = sample_db
      and username = "''alice''" and new_password = long_password,
      THEN conjunct2, THEN spec, THEN mp, OF raised]
  have absent: "\<not> list_ex (\<lambda>u. u_username u = ''nouser'') (users sample_db)"
    by (simp add: sample_db_def sample_users_def)
  have found: "find (\<lambda>u. u_username u = ''bob'') (users sample_db) = Some bob"
    by (simp add: sample_db_def sample_users_def bob_def)
  have ne: "''alice'' \<noteq> ''bob''"
    by simp
  have a1: "fst (update_password sample_library ''s7'' sample_db ''nouser'' ''newpass1'')
              = (True, ''Password updated successfully'')"
    by (rule no [THEN conjunct1])
  have a2: "snd (update_password sample_library ''s7'' sample_db ''nouser'' ''newpass1'') = sample_db"
    using no [THEN conjunct2, THEN conjunct2, THEN conjunct2] absent by (rule mp)
  have a: "update_password sample_library ''s7'' sample_db ''nouser'' ''newpass1''
             = ((True, ''Password updated successfully''), sample_db)"
    using a1 a2 by (simp only: prod_eq_iff fst_conv snd_conv simp_thms)
  have b: "find (\<lambda>u. u_username u = ''bob'')
             (users (snd (update_password sample_library ''s7'' sample_db ''bob'' ''newpass1'')))
           = Some (bob\<lparr>u_password_hash := ''s7newpass1''\<rparr>)"
    using yes [THEN conjunct2, THEN conjunct1, THEN spec, of bob] found by (rule mp)
  have c: "find (\<lambda>u. u_username u = ''alice'')
             (users (snd (update_password sample_library ''s7'' sample_db ''bob'' ''newpass1'')))
           = find (\<lambda>u. u_username u = ''alice'') (users sample_db)"
    using yes [THEN conjunct2, THEN conjunct2, THEN conjunct1, THEN spec, of "''alice''"] ne
    by (rule mp)
  have b': "bob\<lparr>u_password_hash := ''s7newpass1''\<rparr>
              = \<lparr>u_username = ''bob'', u_password_hash = ''s7newpass1'', u_role = ''user'',
                 u_created_at = ''2024-01-03 08:00:00''\<rparr>"
    by (simp add: bob_def)
  from hashed absent a found [unfolded bob_def] b [unfolded b'] c raised bad show ?thesis
    by (intro conjI)
qed

text \<open>
  The claim as the specification words it has the stored hash replaced, and success
  returned, for every new password. For a new password of 73 bytes, on which
  \<^verbatim>\<open>bcrypt.hashpw\<close> raises, the hash of \<^verbatim>\<open>bob\<close> stays and the caller gets \<^verbatim>\<open>False\<close>.
\<close>

theorem update_password_raise_counterexample:
  "list_ex (\<lambda>u. u_username u = ''bob'') (users sample_db)
   \<and> update_password sample_library ''s7'' sample_db ''bob'' long_password
       = ((False, too_long), sample_db)"
  by (simp add: update_password_def sample_db_def sample_users_def sample_library_def
      sample_hashpw_def long_password_def)

section \<open>The default admin\<close>

lemma no_admin_iff:
  "filter (\<lambda>u. u_role u = ''admin'') us = [] \<longleftrightarrow> \<not> list_ex (\<lambda>u. u_role u = ''admin'') us"
  by (auto simp add: list_ex_iff filter_empty_conv)

lemma init_database_has_admin:
  assumes "init_database lib salt now d = Inr d'"
  shows "list_ex (\<lambda>u. u_role u = ''admin'') (users d')"
  using assms
  by (auto simp add: init_database_def Let_def no_admin_iff insert_user_def
      split: if_splits sum.splits)

lemma init_database_with_admin:
  assumes "list_ex (\<lambda>u. u_role u = ''admin'') (users d)"
  shows "\<exists>d'. init_database lib salt now d = Inr d' \<and> users d' = users d"
  using assms by (simp add: init_database_def Let_def no_admin_iff)

lemma role_kept:
  "list_ex (\<lambda>u. u_role u = r)
     (map (\<lambda>u. if u_username u = n then u\<lparr>u_password_hash := h\<rparr> else u) us)
   \<longleftrightarrow> list_ex (\<lambda>u. u_role u = r) us"
  by (induction us) auto

text \<open>Every store the class produces has a user of role \<^verbatim>\<open>admin\<close>.\<close>

lemma reachable_has_admin:
  assumes "reachable lib d"
  shows "list_ex (\<lambda>u. u_role u = ''admin'') (users d)"
  using assms
proof (induction rule: reachable.induct)
  case (by_first_init salt now d)
  then show ?case by (rule init_database_has_admin)
next
  case (by_init d salt now d')
  then show ?case by (simp add: init_database_has_admin)
next
  case (by_add_user d salt now username password role res d')
  then show ?case
    by (auto simp add: add_user_def insert_user_def split: sum.splits if_splits)
next
  case (by_update_password d salt username new_password res d')
  then show ?case
    by (auto simp add: update_password_def role_kept split: sum.splits)
next
  case (by_add_transaction d now username date type category amount description d')
  then show ?case
    by (auto simp add: add_transaction_def split: if_splits)
next
  case (by_update_transaction d transaction_id date type category amount description d')
  then show ?case
    by (auto simp add: update_transaction_def split: if_splits)
next
  case (by_delete_transaction d transaction_id d')
  then show ?case
    by (auto simp add: delete_transaction_def)
next
  case (by_delete_all_user_transactions d username d')
  then show ?case
    by (auto simp add: delete_all_user_transactions_def)
qed

lemma init_database_first:
  assumes "users d = []" and "hashpw lib ''admin123'' salt = Inr hashed"
  shows "\<exists>d'. init_database lib salt now d = Inr d'
           \<and> users d' = users d @ [\<lparr>u_username = ''admin'', u_password_hash = hashed,
                                     u_role = ''admin'', u_created_at = now\<rparr>]
           \<and> (checkpw lib ''admin123'' hashed = Inr True \<longrightarrow>
                verify_user lib d' ''admin'' ''admin123'' = Inr (True, Some ''admin''))"
  using assms
  by (simp add: init_database_def Let_def insert_user_def check_role_def verify_user_def)

text \<open>
  C10. \<^verbatim>\<open>init_database\<close> runs on the new file or on a store the class has produced. If
  that store has no user of role \<^verbatim>\<open>admin\<close>, it adds the user \<^verbatim>\<open>admin\<close> with role \<^verbatim>\<open>admin\<close> and
  the hash of \<^verbatim>\<open>admin123\<close>, and, \<^verbatim>\<open>bcrypt.checkpw\<close> accepting that password against that
  hash, \<^verbatim>\<open>verify_user("admin", "admin123")\<close> then returns \<^verbatim>\<open>(True, 'admin')\<close>. If the store has
  a user of role \<^verbatim>\<open>admin\<close>, it adds no user. So a second initialisation, after one that
  succeeded, leaves the users as they are.
\<close>

theorem init_database_default_admin:
  "d = empty_db \<or> reachable lib d \<longrightarrow>
     (\<forall>hashed. \<not> list_ex (\<lambda>u. u_role u = ''admin'') (users d)
          \<and> hashpw lib ''admin123'' salt = Inr hashed \<longrightarrow>
        (\<exists>d'. init_database lib salt now d = Inr d'
           \<and> users d' = users d @
               [\<lparr>u_username = ''admin'', u_password_hash = hashed,
                 u_role = ''admin'', u_created_at = now\<rparr>]
           \<and> (checkpw lib ''admin123'' hashed = Inr True \<longrightarrow>
                verify_user lib d' ''admin'' ''admin123'' = Inr (True, Some ''admin''))))
     \<and> (list_ex (\<lambda>u. u_role u = ''admin'') (users d) \<longrightarrow>
          (\<exists>d'. init_database lib salt now d = Inr d' \<and> users d' = users d))
     \<and> (\<forall>d'. init_database lib salt now d = Inr d' \<longrightarrow>
          (\<exists>d''. init_database lib salt' now' d' = Inr d'' \<and> users d'' = users d'))"
proof (rule impI)
  assume origin: "d = empty_db \<or> reachable lib d"
  have fresh: "users d = []" if "\<not> list_ex (\<lambda>u. u_role u = ''admin'') (users d)"
    using origin that reachable_has_admin [of lib d] by (auto simp add: empty_db_def)
  have first: "\<exists>d'. init_database lib salt now d = Inr d'
      \<and> users d' = users d @ [\<lparr>u_username = ''admin'', u_password_hash = hashed,
                                u_role = ''admin'', u_created_at = now\<rparr>]
      \<and> (checkpw lib ''admin123'' hashed = Inr True \<longrightarrow>
           verify_user lib d' ''admin'' ''admin123'' = Inr (True, Some ''admin''))"
    if "\<not> list_ex (\<lambda>u. u_role u = ''admin'') (users d)
          \<and> hashpw lib ''admin123'' salt = Inr hashed" for hashed
    using that fresh by (intro init_database_first) simp_all
  have again: "\<exists>d''. init_database lib salt' now' d' = Inr d'' \<and> users d'' = users d'"
    if "init_database lib salt now d = Inr d'" for d'
    using that by (intro init_database_with_admin init_database_has_admin)
  show "(\<forall>hashed. \<not> list_ex (\<lambda>u. u_role u = ''admin'') (users d)
          \<and> hashpw lib ''admin123'' salt = Inr hashed \<longrightarrow>
        (\<exists>d'. init_database lib salt now d = Inr d'
           \<and> users d' = users d @
               [\<lparr>u_username = ''admin'', u_password_hash = hashed,
                 u_role = ''admin'', u_created_at = now\<rparr>]
           \<and> (checkpw lib ''admin123'' hashed = Inr True \<longrightarrow>
                verify_user lib d' ''admin'' ''admin123'' = Inr (True, Some ''admin''))))
     \<and> (list_ex (\<lambda>u. u_role u = ''admin'') (users d) \<longrightarrow>
          (\<exists>d'. init_database lib salt now d = Inr d' \<and> users d' = users d))
     \<and> (\<forall>d'. init_database lib salt now d = Inr d' \<longrightarrow>
          (\<exists>d''. init_database lib salt' now' d' = Inr d'' \<and> users d'' = users d'))"
    using first again init_database_with_admin [of d lib salt now] by blast
qed

theorem init_database_default_admin_witness:
  "hashpw sample_library ''admin123'' ''s0'' = Inr ''s0admin123''
   \<and> checkpw sample_library ''admin123'' ''s0admin123'' = Inr True
   \<and> (\<exists>d'. init_database sample_library ''s0'' ''2024-01-01 08:00:00'' empty_db = Inr d'
          \<and> reachable sample_library d'
          \<and> users d' = [\<lparr>u_username = ''admin'', u_password_hash = ''s0admin123'',
                           u_role = ''admin'', u_created_at = ''2024-01-01 08:00:00''\<rparr>]
          \<and> verify_user sample_library d' ''admin'' ''admin123'' = Inr (True, Some ''admin'')
          \<and> (\<exists>d''. init_database sample_library ''s1'' ''2024-01-02 08:00:00'' d' = Inr d''
                 \<and> users d'' = users d')
          \<and> (\<exists>d''. init_database sample_library ''s2'' ''2024-01-03 08:00:00'' d' = Inr d''
                 \<and> users d'' = users d'))"
proof -
  have hashed: "hashpw sample_library ''admin123'' ''s0'' = Inr ''s0admin123''"
    by (simp add: sample_library_def sample_hashpw_def)
  have checked: "checkpw sample_library ''admin123'' ''s0admin123'' = Inr True"
    by (simp add: sample_library_def sample_checkpw_def)
  have none: "\<not> list_ex (\<lambda>u. u_role u = ''admin'') (users empty_db)"
    by (simp add: empty_db_def)
  have start: "empty_db = empty_db \<or> reachable sample_library empty_db"
    by simp
  note new = init_database_default_admin
    [where d = empty_db and lib = sample_library and salt = "''s0''"
      and now = "''2024-01-01 08:00:00''" and salt' = "''s1''"
      and now' = "''2024-01-02 08:00:00''", THEN mp, OF start]
  have "\<exists>d'. init_database sample_library ''s0'' ''2024-01-01 08:00:00'' empty_db = Inr d'
      \<and> users d' = users empty_db @
          [\<lparr>u_username = ''admin'', u_password_hash = ''s0admin123'',
            u_role = ''admin'', u_created_at = ''2024-01-01 08:00:00''\<rparr>]
      \<and> (checkpw sample_library ''admin123'' ''s0admin123'' = Inr True \<longrightarrow>
           verify_user sample_library d' ''admin'' ''admin123'' = Inr (True, Some ''admin''))"
    using new [THEN conjunct1, THEN spec, of "''s0admin123''"] conjI [OF none hashed]
    by (rule mp)
  then obtain d' where
    init: "init_database sample_library ''s0'' ''2024-01-01 08:00:00'' empty_db = Inr d'"
    and us: "users d' = users empty_db @
          [\<lparr>u_username = ''admin'', u_password_hash = ''s0admin123'',
            u_role = ''admin'', u_created_at = ''2024-01-01 08:00:00''\<rparr>]"
    and ver: "checkpw sample_library ''admin123'' ''s0admin123'' = Inr True \<longrightarrow>
           verify_user sample_library d' ''admin'' ''admin123'' = Inr (True, Some ''admin'')"
    by (elim exE conjE)
  have us': "users d' = [\<lparr>u_username = ''admin'', u_password_hash = ''s0admin123'',
            u_role = ''admin'', u_created_at = ''2024-01-01 08:00:00''\<rparr>]"
    using us by (simp add: empty_db_def)
  have verified: "verify_user sample_library d' ''admin'' ''admin123'' = Inr (True, Some ''admin'')"
    using ver checked by (rule mp)
  have second: "\<exists>d''. init_database sample_library ''s1'' ''2024-01-02 08:00:00'' d' = Inr d''
                 \<and> users d'' = users d'"
    using new [THEN conjunct2, THEN conjunct2, THEN spec, of d'] init by (rule mp)
  have reach: "reachable sample_library d'"
    using init by (rule by_first_init)
  have later: "d' = empty_db \<or> reachable sample_library d'"
    using reach by (rule disjI2)
  have admin: "list_ex (\<lambda>u. u_role u = ''admin'') (users d')"
    by (simp add: us')
  have third: "\<exists>d''. init_database sample_library ''s2'' ''2024-01-03 08:00:00'' d' = Inr d''
                 \<and> users d'' = users d'"
    using init_database_default_admin
      [where d = d' and lib = sample_library and salt = "''s2''"
        and now = "''2024-01-03 08:00:00''" and salt' = "''s3''"
        and now' = "''2024-01-04 08:00:00''", THEN mp, OF later, THEN conjunct2, THEN conjunct1]
      admin by (rule mp)
  from init reach us' verified second third
  have body: "init_database sample_library ''s0'' ''2024-01-01 08:00:00'' empty_db = Inr d'
          \<and> reachable sample_library d'
          \<and> users d' = [\<lparr>u_username = ''admin'', u_password_hash = ''s0admin123'',
                           u_role = ''admin'', u_created_at = ''2024-01-01 08:00:00''\<rparr>]
          \<and> verify_user sample_library d' ''admin'' ''admin123'' = Inr (True, Some ''admin'')
          \<and> (\<exists>d''. init_database sample_library ''s1'' ''2024-01-02 08:00:00'' d' = Inr d''
                 \<and> users d'' = users d')
          \<and> (\<exists>d''. init_database sample_library ''s2'' ''2024-01-03 08:00:00'' d' = Inr d''
                 \<and> users d'' = users d')"
    by (intro conjI)
  have "\<exists>d'. init_database sample_library ''s0'' ''2024-01-01 08:00:00'' empty_db = Inr d'
          \<and> reachable sample_library d'
          \<and> users d' = [\<lparr>u_username = ''admin'', u_password_hash = ''s0admin123'',
                           u_role = ''admin'', u_created_at = ''2024-01-01 08:00:00''\<rparr>]
          \<and> verify_user sample_library d' ''admin'' ''admin123'' = Inr (True, Some ''admin'')
          \<and> (\<exists>d''. init_database sample_library ''s1'' ''2024-01-02 08:00:00'' d' = Inr d''
                 \<and> users d'' = users d')
          \<and> (\<exists>d''. init_database sample_library ''s2'' ''2024-01-03 08:00:00'' d' = Inr d''
                 \<and> users d'' = users d')"
    by (rule exI [of _ d']) (rule body)
  with hashed checked show ?thesis
    by (intro conjI)
qed

section \<open>Listing the transactions of a user\<close>

lemma select_transactions_mset:
  "mset (select_transactions d username)
     = filter_mset (\<lambda>t. t_username t = username) (mset (transactions d))"
  by (simp add: select_transactions_def)

lemma select_transactions_sorted:
  "sorted_wrt (\<lambda>t t'. t_date t' < t_date t \<or> (t_date t' = t_date t \<and> t_id t' \<le> t_id t))
     (select_transactions d username)"
proof -
  define xs where "xs = filter (\<lambda>t. t_username t = username) (transactions d)"
  have "sorted (map (\<lambda>t. (t_date t, t_id t)) (sort_key (\<lambda>t. (t_date t, t_id t)) xs))"
    by (rule sorted_sort_key)
  then have "sorted_wrt (\<lambda>a b. (t_date a, t_id a) \<le> (t_date b, t_id b))
      (sort_key (\<lambda>t. (t_date t, t_id t)) xs)"
    by (simp only: sorted_map)
  then have "sorted_wrt (\<lambda>a b. (t_date b, t_id b) \<le> (t_date a, t_id a))
      (select_transactions d username)"
    by (simp add: select_transactions_def xs_def sorted_wrt_rev)
  then show ?thesis
  proof (rule sorted_wrt_mono_rel [rotated])
    fix a b :: transaction
    assume "(t_date b, t_id b) \<le> (t_date a, t_id a)"
    then show "t_date b < t_date a \<or> (t_date b = t_date a \<and> t_id b \<le> t_id a)"
      by auto
  qed
qed

lemma map_r_date_rows: "length ds = length sel \<Longrightarrow> map r_date (map2 row_of sel ds) = ds"
  by (induction sel ds rule: list_induct2') (simp_all add: row_of_def)

lemma rows_columns:
  "length ds = length sel \<Longrightarrow>
   list_all2 (\<lambda>r t. r_id r = t_id t \<and> r_type r = t_type t \<and> r_category r = t_category t
                \<and> r_amount r = t_amount t \<and> r_description r = t_description t
                \<and> r_created_at r = t_created_at t)
     (map2 row_of sel ds) sel"
  by (induction sel ds rule: list_induct2') (simp_all add: row_of_def)

lemma get_all_transactions_Inr:
  assumes "get_all_transactions lib d username = Inr rows"
  shows "\<exists>ds. to_datetime lib (map t_date (select_transactions d username)) = Inr ds
           \<and> length ds = length (select_transactions d username)
           \<and> rows = map2 row_of (select_transactions d username) ds"
  using assms
  by (auto simp add: get_all_transactions_def Let_def split: sum.splits if_splits)

text \<open>
  C9, as the code has it. The \<^verbatim>\<open>SELECT\<close> gives exactly the transactions whose \<^verbatim>\<open>username\<close>
  is the given one, the larger date text first and, among rows of one date text, the
  larger id first. When \<^verbatim>\<open>pandas.to_datetime\<close> converts the column of these date texts,
  \<^verbatim>\<open>get_all_transactions\<close> returns one row for each selected transaction, in that order,
  with the id, type, category, amount, description and creation time of its transaction,
  and with the converted dates as its \<^verbatim>\<open>date\<close> column. When \<^verbatim>\<open>pandas.to_datetime\<close> raises,
  \<^verbatim>\<open>get_all_transactions\<close> raises.
\<close>

theorem get_all_transactions_ordered:
  "mset (select_transactions d username)
     = filter_mset (\<lambda>t. t_username t = username) (mset (transactions d))
   \<and> sorted_wrt (\<lambda>t t'. t_date t' < t_date t \<or> (t_date t' = t_date t \<and> t_id t' \<le> t_id t))
       (select_transactions d username)
   \<and> (\<forall>ds. to_datetime lib (map t_date (select_transactions d username)) = Inr ds
            \<and> length ds = length (select_transactions d username) \<longrightarrow>
          (\<exists>rows. get_all_transactions lib d username = Inr rows \<and> map r_date rows = ds))
   \<and> (\<forall>msg. to_datetime lib (map t_date (select_transactions d username)) = Inl msg \<longrightarrow>
          get_all_transactions lib d username = Inl (ValueError msg))
   \<and> (\<forall>rows. get_all_transactions lib d username = Inr rows \<longrightarrow>
          to_datetime lib (map t_date (select_transactions d username)) = Inr (map r_date rows)
          \<and> list_all2 (\<lambda>r t. r_id r = t_id t \<and> r_type r = t_type t
                          \<and> r_category r = t_category t \<and> r_amount r = t_amount t
                          \<and> r_description r = t_description t
                          \<and> r_created_at r = t_created_at t)
              rows (select_transactions d username))"
proof (intro conjI allI impI)
  show "mset (select_transactions d username)
     = filter_mset (\<lambda>t. t_username t = username) (mset (transactions d))"
    by (rule select_transactions_mset)
  show "sorted_wrt (\<lambda>t t'. t_date t' < t_date t \<or> (t_date t' = t_date t \<and> t_id t' \<le> t_id t))
       (select_transactions d username)"
    by (rule select_transactions_sorted)
next
  fix ds
  assume "to_datetime lib (map t_date (select_transactions d username)) = Inr ds
            \<and> length ds = length (select_transactions d username)"
  then have ds: "to_datetime lib (map t_date (select_transactions d username)) = Inr ds"
    and len: "length ds = length (select_transactions d username)"
    by simp_all
  have "get_all_transactions lib d username = Inr (map2 row_of (select_transactions d username) ds)"
    by (simp add: get_all_transactions_def ds len)
  moreover have "map r_date (map2 row_of (select_transactions d username) ds) = ds"
    using len by (rule map_r_date_rows)
  ultimately show "\<exists>rows. get_all_transactions lib d username = Inr rows \<and> map r_date rows = ds"
    by (intro exI conjI)
next
  fix msg
  assume "to_datetime lib (map t_date (select_transactions d username)) = Inl msg"
  then show "get_all_transactions lib d username = Inl (ValueError msg)"
    by (simp add: get_all_transactions_def)
next
  fix rows
  assume "get_all_transactions lib d username = Inr rows"
  from get_all_transactions_Inr [OF this] obtain ds
    where ds: "to_datetime lib (map t_date (select_transactions d username)) = Inr ds"
      and len: "length ds = length (select_transactions d username)"
      and rows: "rows = map2 row_of (select_transactions d username) ds"
    by (elim exE conjE)
  show "to_datetime lib (map t_date (select_transactions d username)) = Inr (map r_date rows)"
    unfolding rows map_r_date_rows [OF len] by (rule ds)
  show "list_all2 (\<lambda>r t. r_id r = t_id t \<and> r_type r = t_type t
                          \<and> r_category r = t_category t \<and> r_amount r = t_amount t
                          \<and> r_description r = t_description t
                          \<and> r_created_at r = t_created_at t)
              rows (select_transactions d username)"
    unfolding rows using len by (rule rows_columns)
qed

theorem get_all_transactions_ordered_witness:
  "select_transactions sample_db ''alice''
     = [sample_transactions ! 3, sample_transactions ! 1, sample_transactions ! 0]
   \<and> to_datetime sample_library (map t_date (select_transactions sample_db ''alice''))
       = Inr [Timestamp 2024 2 1 0, Timestamp 2024 1 5 0, Timestamp 2024 1 5 0]
   \<and> get_all_transactions sample_library sample_db ''alice''
       = Inr [row_of (sample_transactions ! 3) (Timestamp 2024 2 1 0),
              row_of (sample_transactions ! 1) (Timestamp 2024 1 5 0),
              row_of (sample_transactions ! 0) (Timestamp 2024 1 5 0)]
   \<and> list_all2 (\<lambda>r t. r_id r = t_id t \<and> r_type r = t_type t
                   \<and> r_category r = t_category t \<and> r_amount r = t_amount t
                   \<and> r_description r = t_description t \<and> r_created_at r = t_created_at t)
        [row_of (sample_transactions ! 3) (Timestamp 2024 2 1 0),
         row_of (sample_transactions ! 1) (Timestamp 2024 1 5 0),
         row_of (sample_transactions ! 0) (Timestamp 2024 1 5 0)]
        (select_transactions sample_db ''alice'')
   \<and> to_datetime sample_library (map t_date (select_transactions unreadable_db ''alice''))
       = Inl ''Unknown datetime string format''
   \<and> get_all_transactions sample_library unreadable_db ''alice''
       = Inl (ValueError ''Unknown datetime string format'')"
proof -
  define rows where "rows = [row_of (sample_transactions ! 3) (Timestamp 2024 2 1 0),
    row_of (sample_transactions ! 1) (Timestamp 2024 1 5 0),
    row_of (sample_transactions ! 0) (Timestamp 2024 1 5 0)]"
  define ds where "ds = [Timestamp 2024 2 1 0, Timestamp 2024 1 5 0, Timestamp 2024 1 5 0]"
  note good = get_all_transactions_ordered [of sample_db "''alice''" sample_library]
  note bad = get_all_transactions_ordered [of unreadable_db "''alice''" sample_library]
  have sel: "select_transactions sample_db ''alice''
     = [sample_transactions ! 3, sample_transactions ! 1, sample_transactions ! 0]"
    by code_simp
  have conv: "to_datetime sample_library (map t_date (select_transactions sample_db ''alice'')) = Inr ds"
    unfolding ds_def by code_simp
  have len: "length ds = length (select_transactions sample_db ''alice'')"
    unfolding sel by (simp add: ds_def)
  have "\<exists>rows. get_all_transactions sample_library sample_db ''alice'' = Inr rows
          \<and> map r_date rows = ds"
    using good [THEN conjunct2, THEN conjunct2, THEN conjunct1, THEN spec, of ds]
      conjI [OF conv len] by (rule mp)
  have ret: "get_all_transactions sample_library sample_db ''alice'' = Inr rows"
    unfolding rows_def by code_simp
  have cols: "to_datetime sample_library (map t_date (select_transactions sample_db ''alice''))
          = Inr (map r_date rows)
      \<and> list_all2 (\<lambda>r t. r_id r = t_id t \<and> r_type r = t_type t
                   \<and> r_category r = t_category t \<and> r_amount r = t_amount t
                   \<and> r_description r = t_description t \<and> r_created_at r = t_created_at t)
          rows (select_transactions sample_db ''alice'')"
    using good [THEN conjunct2, THEN conjunct2, THEN conjunct2, THEN conjunct2, THEN spec, of rows]
      ret by (rule mp)
  have raised: "to_datetime sample_library (map t_date (select_transactions unreadable_db ''alice''))
       = Inl ''Unknown datetime string format''"
    by code_simp
  have fails: "get_all_transactions sample_library unreadable_db ''alice''
       = Inl (ValueError ''Unknown datetime string format'')"
    using bad [THEN conjunct2, THEN conjunct2, THEN conjunct2, THEN conjunct1, THEN spec,
        of "''Unknown datetime string format''"] raised by (rule mp)
  from sel conv ret cols [THEN conjunct2] raised fails show ?thesis
    unfolding rows_def ds_def by (intro conjI)
qed

text \<open>
  The claim as the specification words it has the rows ordered by date, the latest first.
  The date is stored as text and ordered as text, and \<^verbatim>\<open>add_transaction\<close> stores any text:
  with the dates written month first, the row of 31 December 2023 comes before the row of
  5 January 2024.
\<close>

theorem get_all_transactions_date_order_counterexample:
  "get_all_transactions sample_library month_first_db ''alice''
     = Inr [\<lparr>r_id = 1, r_date = Timestamp 2023 12 31 0, r_type = ''Income'',
             r_category = ''Sales'', r_amount = 100, r_description = None,
             r_created_at = ''2024-01-05 09:00:00''\<rparr>,
            \<lparr>r_id = 2, r_date = Timestamp 2024 1 5 0, r_type = ''Expense'',
             r_category = ''Rent'', r_amount = 40, r_description = None,
             r_created_at = ''2024-01-05 09:05:00''\<rparr>]"
  by code_simp

section \<open>The cumulative balance\<close>

lemma length_cumsum_from: "length (cumsum_from f a xs) = length xs"
  by (induction xs arbitrary: a) simp_all

lemma length_cumsum: "length (cumsum f xs) = length xs"
  by (cases xs) (simp_all add: length_cumsum_from)

lemma cumsum_from_Suc:
  "Suc i < length xs \<Longrightarrow>
   cumsum_from f a xs ! Suc i = f (cumsum_from f a xs ! i) (xs ! Suc i)"
proof (induction xs arbitrary: a i)
  case Nil
  then show ?case by simp
next
  case (Cons x xs)
  show ?case
  proof (cases i)
    case 0
    with Cons.prems show ?thesis by (cases xs) simp_all
  next
    case (Suc j)
    with Cons.prems have "Suc j < length xs" by simp
    from Cons.IH [OF this] show ?thesis by (simp add: Suc)
  qed
qed

lemma cumsum_0: "xs \<noteq> [] \<Longrightarrow> cumsum f xs ! 0 = xs ! 0"
  by (cases xs) simp_all

lemma cumsum_Suc:
  "Suc i < length xs \<Longrightarrow> cumsum f xs ! Suc i = f (cumsum f xs ! i) (xs ! Suc i)"
proof (cases xs)
  case Nil
  assume "Suc i < length xs"
  with Nil show ?thesis by simp
next
  case (Cons x ys)
  assume less: "Suc i < length xs"
  show ?thesis
  proof (cases i)
    case 0
    with less Cons show ?thesis by (cases ys) simp_all
  next
    case (Suc j)
    with less Cons have "Suc j < length ys" by simp
    from cumsum_from_Suc [OF this] show ?thesis by (simp add: Suc Cons)
  qed
qed

lemma last_cumsum_from: "last (a # cumsum_from f a xs) = foldl f a xs"
  by (induction xs arbitrary: a) simp_all

lemma last_cumsum: "xs \<noteq> [] \<Longrightarrow> last (cumsum f xs) = foldl f (hd xs) (tl xs)"
proof (cases xs)
  case Nil
  assume "xs \<noteq> []"
  with Nil show ?thesis by simp
next
  case (Cons x ys)
  show ?thesis
    unfolding Cons cumsum.simps list.sel by (rule last_cumsum_from)
qed

lemma strict_sorted_unique:
  fixes keys :: "'a::linorder list"
  assumes "sorted_wrt (<) keys" and "set keys = set xs"
  shows "keys = sort (remdups xs)"
proof (rule sorted_distinct_set_unique)
  show "sorted keys" and "distinct keys"
    using assms(1) by (simp_all add: strict_sorted_iff)
  show "sorted (sort (remdups xs))" and "distinct (sort (remdups xs))"
    by simp_all
  show "set keys = set (sort (remdups xs))"
    using assms(2) by simp
qed

lemma strict_sorted_sort_remdups:
  fixes xs :: "'a::linorder list"
  shows "sorted_wrt (<) (sort (remdups xs))"
  by (simp add: strict_sorted_iff)

lemma map_fst_zip3:
  "length ds = length ns \<Longrightarrow> length bs = length ns \<Longrightarrow> map fst (zip ds (zip ns bs)) = ds"
  by simp

lemma map_net_zip3:
  "length ds = length ns \<Longrightarrow> length bs = length ns \<Longrightarrow>
   map (\<lambda>r. fst (snd r)) (zip ds (zip ns bs)) = ns"
  by (simp add: list_eq_iff_nth_eq)

lemma map_bal_zip3:
  "length ds = length ns \<Longrightarrow> length bs = length ns \<Longrightarrow>
   map (\<lambda>r. snd (snd r)) (zip ds (zip ns bs)) = bs"
  by (simp add: list_eq_iff_nth_eq)

text \<open>
  The rows of the query of \<^verbatim>\<open>get_cumulative_balance\<close>: the date texts of the user, each
  once and in ascending order, and for each the \<^verbatim>\<open>SUM\<close> over the user's rows of that date.
\<close>

lemma daily_change_eq:
  "daily_change = (\<lambda>t. if t_type t = ''Income'' then t_amount t else - t_amount t)"
  by (rule ext) (simp add: daily_change_def)

lemma daily_rows:
  fixes lib :: library and d :: db and username :: string
  defines "own \<equiv> filter (\<lambda>t. t_username t = username) (transactions d)"
  defines "df \<equiv> map (\<lambda>(k, g). (k, sql_sum lib (map daily_change g))) (group_rows t_date own)"
  shows "map fst df = sort (remdups (map t_date own))"
    and "map snd df
           = map (\<lambda>k. sql_sum lib (map (\<lambda>t. if t_type t = ''Income'' then t_amount t
                                            else - t_amount t)
                    (filter (\<lambda>t. t_username t = username \<and> t_date t = k) (transactions d))))
               (sort (remdups (map t_date own)))"
  by (simp_all add: df_def own_def group_rows_def comp_def daily_change_eq)

lemma get_cumulative_balance_cases:
  fixes lib :: library and d :: db and username :: string
  defines "keys \<equiv> sort (remdups (map t_date
                     (filter (\<lambda>t. t_username t = username) (transactions d))))"
  defines "nets \<equiv> map (\<lambda>k. sql_sum lib (map (\<lambda>t. if t_type t = ''Income'' then t_amount t
                                                 else - t_amount t)
                    (filter (\<lambda>t. t_username t = username \<and> t_date t = k) (transactions d))))
                    keys"
  shows "get_cumulative_balance lib d username
           = (case to_datetime lib keys of
                Inl msg \<Rightarrow> Inl (ValueError msg)
              | Inr ds \<Rightarrow> if length ds = length keys
                          then Inr (zip ds (zip nets (cumsum (fadd lib) nets)))
                          else Inl (ValueError length_mismatch))"
proof -
  define df where "df = map (\<lambda>(k, g). (k, sql_sum lib (map daily_change g)))
    (group_rows t_date (filter (\<lambda>t. t_username t = username) (transactions d)))"
  have k: "map fst df = keys" and n: "map snd df = nets"
    unfolding df_def keys_def nets_def by (rule daily_rows)+
  have len: "length df = length keys"
    using k by (metis length_map)
  have "get_cumulative_balance lib d username
          = (case to_datetime lib (map fst df) of
               Inl msg \<Rightarrow> Inl (ValueError msg)
             | Inr ds \<Rightarrow> if length ds = length df
                         then Inr (zip ds (zip (map snd df) (cumsum (fadd lib) (map snd df))))
                         else Inl (ValueError length_mismatch))"
    unfolding get_cumulative_balance_def Let_def df_def ..
  then show ?thesis
    unfolding k n len .
qed

lemma get_cumulative_balance_Inr:
  fixes lib :: library and d :: db and username :: string
  defines "keys \<equiv> sort (remdups (map t_date
                     (filter (\<lambda>t. t_username t = username) (transactions d))))"
  defines "nets \<equiv> map (\<lambda>k. sql_sum lib (map (\<lambda>t. if t_type t = ''Income'' then t_amount t
                                                 else - t_amount t)
                    (filter (\<lambda>t. t_username t = username \<and> t_date t = k) (transactions d))))
                    keys"
  assumes "get_cumulative_balance lib d username = Inr rows"
  shows "to_datetime lib keys = Inr (map fst rows)"
    and "map (\<lambda>r. fst (snd r)) rows = nets"
    and "map (\<lambda>r. snd (snd r)) rows = cumsum (fadd lib) nets"
proof -
  from assms(3) obtain ds where ds: "to_datetime lib keys = Inr ds"
    and len: "length ds = length keys"
    and rows: "rows = zip ds (zip nets (cumsum (fadd lib) nets))"
    unfolding get_cumulative_balance_cases keys_def [symmetric] nets_def [symmetric]
    by (auto split: sum.splits if_splits)
  have l1: "length ds = length nets"
    using len by (simp add: nets_def)
  have l2: "length (cumsum (fadd lib) nets) = length nets"
    by (rule length_cumsum)
  show "to_datetime lib keys = Inr (map fst rows)"
    unfolding rows map_fst_zip3 [OF l1 l2] by (rule ds)
  show "map (\<lambda>r. fst (snd r)) rows = nets"
    unfolding rows using l1 l2 by (rule map_net_zip3)
  show "map (\<lambda>r. snd (snd r)) rows = cumsum (fadd lib) nets"
    unfolding rows using l1 l2 by (rule map_bal_zip3)
qed

lemma balances_of_nets:
  fixes rows :: "('a \<times> real \<times> real) list"
  assumes "map (\<lambda>r. snd (snd r)) rows = cumsum f (map (\<lambda>r. fst (snd r)) rows)"
  shows "\<forall>i<length rows. snd (snd (rows ! i))
           = (if i = 0 then fst (snd (rows ! i))
              else f (snd (snd (rows ! (i - 1)))) (fst (snd (rows ! i))))"
    and "rows \<noteq> [] \<longrightarrow> snd (snd (last rows))
           = foldl f (fst (snd (hd rows))) (map (\<lambda>r. fst (snd r)) (tl rows))"
proof -
  define nets where "nets = map (\<lambda>r. fst (snd r)) rows"
  define bals where "bals = map (\<lambda>r. snd (snd r)) rows"
  have eq: "bals = cumsum f nets"
    using assms by (simp add: nets_def bals_def)
  have n: "nets ! i = fst (snd (rows ! i))" and b: "bals ! i = snd (snd (rows ! i))"
    if "i < length rows" for i
    using that by (simp_all add: nets_def bals_def)
  have len: "length nets = length rows"
    by (simp add: nets_def)
  show "\<forall>i<length rows. snd (snd (rows ! i))
           = (if i = 0 then fst (snd (rows ! i))
              else f (snd (snd (rows ! (i - 1)))) (fst (snd (rows ! i))))"
  proof (rule allI, rule impI)
    fix i assume i: "i < length rows"
    show "snd (snd (rows ! i))
           = (if i = 0 then fst (snd (rows ! i))
              else f (snd (snd (rows ! (i - 1)))) (fst (snd (rows ! i))))"
    proof (cases i)
      case 0
      from i have "nets \<noteq> []"
        using len by auto
      then have "bals ! 0 = nets ! 0"
        unfolding eq by (rule cumsum_0)
      with i show ?thesis
        by (simp add: 0 n [symmetric] b [symmetric])
    next
      case (Suc j)
      from i have "Suc j < length nets"
        by (simp add: len Suc)
      then have "bals ! Suc j = f (bals ! j) (nets ! Suc j)"
        unfolding eq by (rule cumsum_Suc)
      moreover have "j < length rows"
        using i Suc by simp
      ultimately show ?thesis
        using i by (simp add: Suc n [symmetric] b [symmetric])
    qed
  qed
  show "rows \<noteq> [] \<longrightarrow> snd (snd (last rows))
           = foldl f (fst (snd (hd rows))) (map (\<lambda>r. fst (snd r)) (tl rows))"
  proof (rule impI)
    assume ne: "rows \<noteq> []"
    then have "nets \<noteq> []"
      by (simp add: nets_def)
    then have "last (cumsum f nets) = foldl f (hd nets) (tl nets)"
      by (rule last_cumsum)
    then have "last bals = foldl f (hd nets) (tl nets)"
      by (simp only: eq)
    then show "snd (snd (last rows))
           = foldl f (fst (snd (hd rows))) (map (\<lambda>r. fst (snd r)) (tl rows))"
      using ne by (simp add: bals_def nets_def last_map hd_map map_tl)
  qed
qed

text \<open>
  C1, as the code has it. The query groups the user's transactions by the text of the
  date: its rows are the date texts of the user, each once, the smaller text first.
  \<^item> When \<^verbatim>\<open>pandas.to_datetime\<close> raises on that column, \<^verbatim>\<open>get_cumulative_balance\<close> raises;
    when it converts the column, \<^verbatim>\<open>get_cumulative_balance\<close> returns, with the converted dates
    as its \<^verbatim>\<open>date\<close> column.
  \<^item> In what it returns, the daily change of a date text is the \<^verbatim>\<open>SUM\<close>, over the user's
    transactions of that date text, of the amount of an income and the negated amount of
    any other transaction. The first balance is the first daily change, every later
    balance is the balance before it plus the daily change of its row, added as doubles,
    and so the last balance is the daily changes added up from the left.
  \<^item> Some such list of date texts exists, and for a user without transactions, the empty
    column being converted to the empty column, the result has no rows.
\<close>

theorem get_cumulative_balance_prefix_sums:
  "(\<forall>keys. sorted_wrt (<) keys
        \<and> set keys = set (map t_date (filter (\<lambda>t. t_username t = username) (transactions d)))
      \<longrightarrow>
        (\<forall>msg. to_datetime lib keys = Inl msg \<longrightarrow>
           get_cumulative_balance lib d username = Inl (ValueError msg))
        \<and> (\<forall>ds. to_datetime lib keys = Inr ds \<and> length ds = length keys \<longrightarrow>
             (\<exists>rows. get_cumulative_balance lib d username = Inr rows \<and> map fst rows = ds))
        \<and> (\<forall>rows. get_cumulative_balance lib d username = Inr rows \<longrightarrow>
             to_datetime lib keys = Inr (map fst rows)
             \<and> map (\<lambda>r. fst (snd r)) rows
                 = map (\<lambda>k. sql_sum lib (map (\<lambda>t. if t_type t = ''Income'' then t_amount t
                                                  else - t_amount t)
                          (filter (\<lambda>t. t_username t = username \<and> t_date t = k)
                             (transactions d))))
                     keys
             \<and> (\<forall>i<length rows. snd (snd (rows ! i))
                   = (if i = 0 then fst (snd (rows ! i))
                      else fadd lib (snd (snd (rows ! (i - 1)))) (fst (snd (rows ! i)))))
             \<and> (rows \<noteq> [] \<longrightarrow> snd (snd (last rows))
                   = foldl (fadd lib) (fst (snd (hd rows)))
                       (map (\<lambda>r. fst (snd r)) (tl rows)))))
   \<and> (\<exists>keys. sorted_wrt (<) keys
         \<and> set keys = set (map t_date (filter (\<lambda>t. t_username t = username) (transactions d))))
   \<and> (filter (\<lambda>t. t_username t = username) (transactions d) = []
        \<and> to_datetime lib [] = Inr [] \<longrightarrow>
      get_cumulative_balance lib d username = Inr [])"
proof -
  define own where "own = filter (\<lambda>t. t_username t = username) (transactions d)"
  define keys' where "keys' = sort (remdups (map t_date own))"
  define nets where "nets = map (\<lambda>k. sql_sum lib (map (\<lambda>t. if t_type t = ''Income'' then t_amount t
                                                           else - t_amount t)
    (filter (\<lambda>t. t_username t = username \<and> t_date t = k) (transactions d)))) keys'"
  note cases = get_cumulative_balance_cases [of lib d username,
      unfolded own_def [symmetric] keys'_def [symmetric] nets_def [symmetric]]
  have first: "(\<forall>msg. to_datetime lib keys = Inl msg \<longrightarrow>
           get_cumulative_balance lib d username = Inl (ValueError msg))
        \<and> (\<forall>ds. to_datetime lib keys = Inr ds \<and> length ds = length keys \<longrightarrow>
             (\<exists>rows. get_cumulative_balance lib d username = Inr rows \<and> map fst rows = ds))
        \<and> (\<forall>rows. get_cumulative_balance lib d username = Inr rows \<longrightarrow>
             to_datetime lib keys = Inr (map fst rows)
             \<and> map (\<lambda>r. fst (snd r)) rows
                 = map (\<lambda>k. sql_sum lib (map (\<lambda>t. if t_type t = ''Income'' then t_amount t
                                                  else - t_amount t)
                          (filter (\<lambda>t. t_username t = username \<and> t_date t = k)
                             (transactions d))))
                     keys
             \<and> (\<forall>i<length rows. snd (snd (rows ! i))
                   = (if i = 0 then fst (snd (rows ! i))
                      else fadd lib (snd (snd (rows ! (i - 1)))) (fst (snd (rows ! i)))))
             \<and> (rows \<noteq> [] \<longrightarrow> snd (snd (last rows))
                   = foldl (fadd lib) (fst (snd (hd rows)))
                       (map (\<lambda>r. fst (snd r)) (tl rows))))"
    if "sorted_wrt (<) keys \<and> set keys = set (map t_date own)" for keys
  proof -
    from that have keys: "keys = keys'"
      unfolding keys'_def by (intro strict_sorted_unique) simp_all
    have a: "get_cumulative_balance lib d username = Inl (ValueError msg)"
      if "to_datetime lib keys = Inl msg" for msg
      using that unfolding keys cases by simp
    have a': "\<forall>msg. to_datetime lib keys = Inl msg \<longrightarrow>
           get_cumulative_balance lib d username = Inl (ValueError msg)"
      by (intro allI impI) (rule a)
    have b: "\<exists>rows. get_cumulative_balance lib d username = Inr rows \<and> map fst rows = ds"
      if "to_datetime lib keys = Inr ds \<and> length ds = length keys" for ds
    proof -
      from that have ds: "to_datetime lib keys' = Inr ds" and len: "length ds = length keys'"
        by (simp_all add: keys)
      have l1: "length ds = length nets"
        using len by (simp add: nets_def)
      have l2: "length (cumsum (fadd lib) nets) = length nets"
        by (rule length_cumsum)
      have "get_cumulative_balance lib d username
              = Inr (zip ds (zip nets (cumsum (fadd lib) nets)))"
        unfolding cases by (simp add: ds len)
      moreover have "map fst (zip ds (zip nets (cumsum (fadd lib) nets))) = ds"
        using l1 l2 by (rule map_fst_zip3)
      ultimately show ?thesis
        by (intro exI conjI)
    qed
    have b': "\<forall>ds. to_datetime lib keys = Inr ds \<and> length ds = length keys \<longrightarrow>
             (\<exists>rows. get_cumulative_balance lib d username = Inr rows \<and> map fst rows = ds)"
      by (intro allI impI) (rule b)
    have c: "to_datetime lib keys = Inr (map fst rows)
             \<and> map (\<lambda>r. fst (snd r)) rows
                 = map (\<lambda>k. sql_sum lib (map (\<lambda>t. if t_type t = ''Income'' then t_amount t
                                                  else - t_amount t)
                          (filter (\<lambda>t. t_username t = username \<and> t_date t = k)
                             (transactions d))))
                     keys
             \<and> (\<forall>i<length rows. snd (snd (rows ! i))
                   = (if i = 0 then fst (snd (rows ! i))
                      else fadd lib (snd (snd (rows ! (i - 1)))) (fst (snd (rows ! i)))))
             \<and> (rows \<noteq> [] \<longrightarrow> snd (snd (last rows))
                   = foldl (fadd lib) (fst (snd (hd rows)))
                       (map (\<lambda>r. fst (snd r)) (tl rows)))"
      if ret: "get_cumulative_balance lib d username = Inr rows" for rows
    proof -
      note facts = get_cumulative_balance_Inr [OF ret,
          unfolded own_def [symmetric] keys'_def [symmetric] nets_def [symmetric]]
      have bal: "map (\<lambda>r. snd (snd r)) rows
                   = cumsum (fadd lib) (map (\<lambda>r. fst (snd r)) rows)"
        unfolding facts(2) by (rule facts(3))
      from facts(1) facts(2) [unfolded nets_def] balances_of_nets [OF bal]
      show ?thesis
        unfolding keys by (intro conjI)
    qed
    have c': "\<forall>rows. get_cumulative_balance lib d username = Inr rows \<longrightarrow>
             to_datetime lib keys = Inr (map fst rows)
             \<and> map (\<lambda>r. fst (snd r)) rows
                 = map (\<lambda>k. sql_sum lib (map (\<lambda>t. if t_type t = ''Income'' then t_amount t
                                                  else - t_amount t)
                          (filter (\<lambda>t. t_username t = username \<and> t_date t = k)
                             (transactions d))))
                     keys
             \<and> (\<forall>i<length rows. snd (snd (rows ! i))
                   = (if i = 0 then fst (snd (rows ! i))
                      else fadd lib (snd (snd (rows ! (i - 1)))) (fst (snd (rows ! i)))))
             \<and> (rows \<noteq> [] \<longrightarrow> snd (snd (last rows))
                   = foldl (fadd lib) (fst (snd (hd rows)))
                       (map (\<lambda>r. fst (snd r)) (tl rows)))"
      by (rule allI, rule impI) (rule c)
    from a' b' c' show ?thesis
      by (intro conjI)
  qed
  have first': "\<forall>keys. sorted_wrt (<) keys \<and> set keys = set (map t_date own) \<longrightarrow>
        (\<forall>msg. to_datetime lib keys = Inl msg \<longrightarrow>
           get_cumulative_balance lib d username = Inl (ValueError msg))
        \<and> (\<forall>ds. to_datetime lib keys = Inr ds \<and> length ds = length keys \<longrightarrow>
             (\<exists>rows. get_cumulative_balance lib d username = Inr rows \<and> map fst rows = ds))
        \<and> (\<forall>rows. get_cumulative_balance lib d username = Inr rows \<longrightarrow>
             to_datetime lib keys = Inr (map fst rows)
             \<and> map (\<lambda>r. fst (snd r)) rows
                 = map (\<lambda>k. sql_sum lib (map (\<lambda>t. if t_type t = ''Income'' then t_amount t
                                                  else - t_amount t)
                          (filter (\<lambda>t. t_username t = username \<and> t_date t = k)
                             (transactions d))))
                     keys
             \<and> (\<forall>i<length rows. snd (snd (rows ! i))
                   = (if i = 0 then fst (snd (rows ! i))
                      else fadd lib (snd (snd (rows ! (i - 1)))) (fst (snd (rows ! i)))))
             \<and> (rows \<noteq> [] \<longrightarrow> snd (snd (last rows))
                   = foldl (fadd lib) (fst (snd (hd rows)))
                       (map (\<lambda>r. fst (snd r)) (tl rows))))"
    by (rule allI, rule impI) (rule first)
  have second: "\<exists>keys. sorted_wrt (<) keys \<and> set keys = set (map t_date own)"
  proof (intro exI conjI)
    show "sorted_wrt (<) keys'"
      unfolding keys'_def by (rule strict_sorted_sort_remdups)
    show "set keys' = set (map t_date own)"
      by (simp add: keys'_def)
  qed
  have third: "get_cumulative_balance lib d username = Inr []"
    if "own = [] \<and> to_datetime lib [] = Inr []"
  proof -
    from that have "keys' = []" and "nets = []" and "to_datetime lib [] = Inr []"
      by (simp_all add: keys'_def nets_def)
    then show ?thesis
      unfolding cases by simp
  qed
  have third': "own = [] \<and> to_datetime lib [] = Inr [] \<longrightarrow>
      get_cumulative_balance lib d username = Inr []"
    by (rule impI) (rule third)
  from first' second third' show ?thesis
    unfolding own_def by (intro conjI)
qed

theorem get_cumulative_balance_prefix_sums_witness:
  "sorted_wrt (<) [''2024-01-05'', ''2024-02-01'']
   \<and> set [''2024-01-05'', ''2024-02-01'']
       = set (map t_date (filter (\<lambda>t. t_username t = ''alice'') (transactions sample_db)))
   \<and> to_datetime sample_library [''2024-01-05'', ''2024-02-01'']
       = Inr [Timestamp 2024 1 5 0, Timestamp 2024 2 1 0]
   \<and> get_cumulative_balance sample_library sample_db ''alice''
       = Inr [(Timestamp 2024 1 5 0, 60, 60), (Timestamp 2024 2 1 0, 50, 110)]
   \<and> map (\<lambda>k. sql_sum sample_library (map (\<lambda>t. if t_type t = ''Income'' then t_amount t
                                               else - t_amount t)
             (filter (\<lambda>t. t_username t = ''alice'' \<and> t_date t = k) (transactions sample_db))))
        [''2024-01-05'', ''2024-02-01'']
       = [60, 50]
   \<and> fadd sample_library 60 50 = 110
   \<and> foldl (fadd sample_library) 60 [50] = 110
   \<and> sorted_wrt (<) [''soon'']
   \<and> set [''soon'']
       = set (map t_date (filter (\<lambda>t. t_username t = ''alice'') (transactions unreadable_db)))
   \<and> to_datetime sample_library [''soon''] = Inl ''Unknown datetime string format''
   \<and> get_cumulative_balance sample_library unreadable_db ''alice''
       = Inl (ValueError ''Unknown datetime string format'')
   \<and> filter (\<lambda>t. t_username t = ''nouser'') (transactions sample_db) = []
   \<and> to_datetime sample_library [] = Inr []
   \<and> get_cumulative_balance sample_library sample_db ''nouser'' = Inr []"
proof -
  define keys where "keys = [''2024-01-05'', ''2024-02-01'']"
  define ds where "ds = [Timestamp 2024 1 5 0, Timestamp 2024 2 1 0]"
  define rows :: "(timestamp \<times> real \<times> real) list"
    where "rows = [(Timestamp 2024 1 5 0, 60, 60), (Timestamp 2024 2 1 0, 50, 110)]"
  define bad where "bad = [''soon'']"
  have k1: "sorted_wrt (<) keys"
    unfolding keys_def by code_simp
  have k2: "set keys
      = set (map t_date (filter (\<lambda>t. t_username t = ''alice'') (transactions sample_db)))"
    unfolding keys_def by (simp add: sample_db_def sample_transactions_def insert_commute)
  have conv: "to_datetime sample_library keys = Inr ds"
    unfolding keys_def ds_def by code_simp
  have len: "length ds = length keys"
    by (simp add: ds_def keys_def)
  note good = get_cumulative_balance_prefix_sums
    [of "''alice''" sample_db sample_library, THEN conjunct1, THEN spec, of keys,
      THEN mp, OF conjI, OF k1 k2]
  have "\<exists>rows. get_cumulative_balance sample_library sample_db ''alice'' = Inr rows
          \<and> map fst rows = ds"
    using good [THEN conjunct2, THEN conjunct1, THEN spec, of ds] conjI [OF conv len]
    by (rule mp)
  have ret: "get_cumulative_balance sample_library sample_db ''alice'' = Inr rows"
    unfolding rows_def by code_simp
  have content: "to_datetime sample_library keys = Inr (map fst rows)
      \<and> map (\<lambda>r. fst (snd r)) rows
          = map (\<lambda>k. sql_sum sample_library (map (\<lambda>t. if t_type t = ''Income'' then t_amount t
                                                      else - t_amount t)
                   (filter (\<lambda>t. t_username t = ''alice'' \<and> t_date t = k)
                      (transactions sample_db))))
              keys
      \<and> (\<forall>i<length rows. snd (snd (rows ! i))
            = (if i = 0 then fst (snd (rows ! i))
               else fadd sample_library (snd (snd (rows ! (i - 1)))) (fst (snd (rows ! i)))))
      \<and> (rows \<noteq> [] \<longrightarrow> snd (snd (last rows))
            = foldl (fadd sample_library) (fst (snd (hd rows)))
                (map (\<lambda>r. fst (snd r)) (tl rows)))"
    using good [THEN conjunct2, THEN conjunct2, THEN spec, of rows] ret by (rule mp)
  have nets: "map (\<lambda>k. sql_sum sample_library (map (\<lambda>t. if t_type t = ''Income'' then t_amount t
                                                        else - t_amount t)
                   (filter (\<lambda>t. t_username t = ''alice'' \<and> t_date t = k)
                      (transactions sample_db))))
              keys = [60, 50]"
    using content [THEN conjunct2, THEN conjunct1] by (simp add: rows_def)
  have one: "(1::nat) < length rows"
    by (simp add: rows_def)
  have "snd (snd (rows ! 1))
            = (if (1::nat) = 0 then fst (snd (rows ! 1))
               else fadd sample_library (snd (snd (rows ! (1 - 1)))) (fst (snd (rows ! 1))))"
    using content [THEN conjunct2, THEN conjunct2, THEN conjunct1, THEN spec, of 1] one
    by (rule mp)
  then have step: "fadd sample_library 60 50 = 110"
    by (simp add: rows_def)
  have ne: "rows \<noteq> []"
    by (simp add: rows_def)
  have "snd (snd (last rows))
            = foldl (fadd sample_library) (fst (snd (hd rows)))
                (map (\<lambda>r. fst (snd r)) (tl rows))"
    using content [THEN conjunct2, THEN conjunct2, THEN conjunct2] ne by (rule mp)
  then have total: "foldl (fadd sample_library) 60 [50] = 110"
    by (simp add: rows_def)
  have b1: "sorted_wrt (<) bad"
    by (simp add: bad_def)
  have b2: "set bad
      = set (map t_date (filter (\<lambda>t. t_username t = ''alice'') (transactions unreadable_db)))"
    by (simp add: bad_def unreadable_db_def unreadable_transactions_def)
  have raised: "to_datetime sample_library bad = Inl ''Unknown datetime string format''"
    unfolding bad_def by code_simp
  have fails: "get_cumulative_balance sample_library unreadable_db ''alice''
       = Inl (ValueError ''Unknown datetime string format'')"
    using get_cumulative_balance_prefix_sums
      [of "''alice''" unreadable_db sample_library, THEN conjunct1, THEN spec, of bad,
        THEN mp, OF conjI, OF b1 b2, THEN conjunct1, THEN spec,
        of "''Unknown datetime string format''"] raised
    by (rule mp)
  have none: "filter (\<lambda>t. t_username t = ''nouser'') (transactions sample_db) = []"
    by (simp add: sample_db_def sample_transactions_def)
  have empty: "to_datetime sample_library [] = Inr []"
    by (simp add: sample_library_def sample_to_datetime_def)
  have no_rows: "get_cumulative_balance sample_library sample_db ''nouser'' = Inr []"
    using get_cumulative_balance_prefix_sums
      [of "''nouser''" sample_db sample_library, THEN conjunct2, THEN conjunct2]
      conjI [OF none empty]
    by (rule mp)
  from k1 k2 conv ret nets step total b1 b2 raised fails none empty no_rows show ?thesis
    unfolding keys_def ds_def rows_def bad_def by (intro conjI)
qed

text \<open>
  The claim as the specification words it has the sequence ordered by date, the earliest
  first, each balance being the sum of the daily nets up to its date. The dates are
  grouped and ordered as texts, and \<^verbatim>\<open>add_transaction\<close> stores any text: with the dates
  written month first, 5 January 2024 comes before 31 December 2023, and the balance
  beside 31 December 2023 holds the expense of 5 January 2024.
\<close>

theorem get_cumulative_balance_date_order_counterexample:
  "get_cumulative_balance sample_library month_first_db ''alice''
     = Inr [(Timestamp 2024 1 5 0, - 40, - 40), (Timestamp 2023 12 31 0, 100, 60)]"
  by code_simp

section \<open>The monthly summary\<close>

lemma group_rows_keys: "map fst (group_rows key rows) = sort (remdups (map key rows))"
  by (simp add: group_rows_def comp_def)

lemma group_rows_mem:
  "(k, g) \<in> set (group_rows key rows) \<longleftrightarrow> k \<in> key ` set rows \<and> g = filter (\<lambda>r. key r = k) rows"
  by (auto simp add: group_rows_def)

lemma summary_keys:
  "map (\<lambda>(c, ty, s). (c, ty)) (map (\<lambda>((c, ty), g). (c, ty, h g)) l) = map fst l"
  by (induction l) auto

lemma table_keys:
  "map (\<lambda>(c, ty, s). (c, ty)) (map (\<lambda>((c, ty), s). (c, ty, s)) l) = map fst l"
  by (induction l) auto

lemma get_monthly_summary_keys:
  "map (\<lambda>(c, ty, s). (c, ty)) (get_monthly_summary lib d username year month)
     = sort (remdups (map (\<lambda>t. (t_category t, t_type t))
         (filter (\<lambda>t. t_username t = username \<and> sql_in_month lib year month t)
            (transactions d))))"
  unfolding get_monthly_summary_def summary_keys group_rows_keys ..

lemma get_monthly_summary_mem:
  "(c, ty, s) \<in> set (get_monthly_summary lib d username year month)
     \<longleftrightarrow> (\<exists>t \<in> set (transactions d). t_username t = username \<and> sql_in_month lib year month t
              \<and> t_category t = c \<and> t_type t = ty)
         \<and> s = sql_sum lib (map t_amount
                 (filter (\<lambda>t. t_username t = username \<and> sql_in_month lib year month t
                              \<and> t_category t = c \<and> t_type t = ty)
                    (transactions d)))"
proof -
  define sql where "sql = filter (\<lambda>t. t_username t = username \<and> sql_in_month lib year month t)
    (transactions d)"
  have grp: "filter (\<lambda>t. (t_category t, t_type t) = (c, ty)) sql
      = filter (\<lambda>t. t_username t = username \<and> sql_in_month lib year month t
                   \<and> t_category t = c \<and> t_type t = ty) (transactions d)"
    by (simp add: sql_def)
  have "(c, ty, s) \<in> set (get_monthly_summary lib d username year month)
      \<longleftrightarrow> (\<exists>g. ((c, ty), g) \<in> set (group_rows (\<lambda>t. (t_category t, t_type t)) sql)
              \<and> s = sql_sum lib (map t_amount g))"
    by (force simp add: get_monthly_summary_def sql_def)
  also have "\<dots> \<longleftrightarrow> (c, ty) \<in> (\<lambda>t. (t_category t, t_type t)) ` set sql
      \<and> s = sql_sum lib (map t_amount (filter (\<lambda>t. (t_category t, t_type t) = (c, ty)) sql))"
    unfolding group_rows_mem by blast
  also have "(c, ty) \<in> (\<lambda>t. (t_category t, t_type t)) ` set sql
      \<longleftrightarrow> (\<exists>t \<in> set (transactions d). t_username t = username \<and> sql_in_month lib year month t
              \<and> t_category t = c \<and> t_type t = ty)"
    by (auto simp add: sql_def)
  finally show ?thesis
    unfolding grp .
qed

lemma fst_set_add_total: "fst ` set (add_total f k a l) = insert k (fst ` set l)"
proof (induction l)
  case Nil
  show ?case by simp
next
  case (Cons p l)
  obtain k' s where p: "p = (k', s)"
    by (cases p)
  show ?case
    unfolding p using Cons.IH by (cases "k' = k") auto
qed

lemma distinct_add_total: "distinct (map fst l) \<Longrightarrow> distinct (map fst (add_total f k a l))"
proof (induction l)
  case Nil
  show ?case by simp
next
  case (Cons p l)
  obtain k' s where p: "p = (k', s)"
    by (cases p)
  from Cons show ?case
    using fst_set_add_total [of f k a l] by (auto simp add: p)
qed

lemma map_of_add_total:
  "map_of (add_total f k a l) k'
     = (if k' = k then Some (case map_of l k of None \<Rightarrow> a | Some s \<Rightarrow> f s a) else map_of l k')"
  by (induction l) auto

text \<open>
  Adding the rows up by hand: the table has one entry for every key among the rows, and
  the total of a key is its first amount to which its later amounts have been added, one
  after the other.
\<close>

lemma foldl_add_total:
  fixes key :: "'r \<Rightarrow> 'k" and val :: "'r \<Rightarrow> real" and f :: "real \<Rightarrow> real \<Rightarrow> real"
  defines "step \<equiv> \<lambda>acc r. add_total f (key r) (val r) acc"
  shows "distinct (map fst acc) \<Longrightarrow> distinct (map fst (foldl step acc rs))"
    and "map_of (foldl step acc rs) k
           = (case map val (filter (\<lambda>r. key r = k) rs) of
                [] \<Rightarrow> map_of acc k
              | a # as \<Rightarrow> Some (case map_of acc k of
                                  None \<Rightarrow> foldl f a as
                                | Some s \<Rightarrow> foldl f s (a # as)))"
proof -
  show "distinct (map fst acc) \<Longrightarrow> distinct (map fst (foldl step acc rs))"
    by (induction rs arbitrary: acc) (simp_all add: step_def distinct_add_total)
  show "map_of (foldl step acc rs) k
           = (case map val (filter (\<lambda>r. key r = k) rs) of
                [] \<Rightarrow> map_of acc k
              | a # as \<Rightarrow> Some (case map_of acc k of
                                  None \<Rightarrow> foldl f a as
                                | Some s \<Rightarrow> foldl f s (a # as)))"
  proof (induction rs arbitrary: acc)
    case Nil
    show ?case by simp
  next
    case (Cons r rs)
    show ?case
      unfolding foldl_Cons Cons.IH
      by (auto simp add: step_def map_of_add_total split: list.splits option.splits)
  qed
qed

lemma client_monthly_summary_keys:
  "distinct (map (\<lambda>(c, ty, s). (c, ty)) (client_monthly_summary lib rows year month))"
proof -
  have "distinct (map fst
      (foldl (\<lambda>acc r. add_total (fadd lib) (r_category r, r_type r) (r_amount r) acc)
         ([] :: ((string \<times> string) \<times> real) list) (filter (in_month year month) rows)))"
    by (rule foldl_add_total(1)) simp
  then show ?thesis
    unfolding client_monthly_summary_def table_keys .
qed

lemma client_monthly_summary_mem:
  "(c, ty, s) \<in> set (client_monthly_summary lib rows year month)
     \<longleftrightarrow> (case map r_amount (filter (\<lambda>r. in_month year month r \<and> r_category r = c
                                          \<and> r_type r = ty) rows) of
            [] \<Rightarrow> False
          | a # as \<Rightarrow> s = foldl (fadd lib) a as)"
proof -
  define cl where "cl = filter (in_month year month) rows"
  define tab where "tab = foldl (\<lambda>acc r. add_total (fadd lib) (r_category r, r_type r)
    (r_amount r) acc) ([] :: ((string \<times> string) \<times> real) list) cl"
  have d: "distinct (map fst tab)"
    unfolding tab_def by (rule foldl_add_total(1)) simp
  have amounts: "filter (\<lambda>r. (r_category r, r_type r) = (c, ty)) cl
      = filter (\<lambda>r. in_month year month r \<and> r_category r = c \<and> r_type r = ty) rows"
    by (simp add: cl_def)
  have "(c, ty, s) \<in> set (client_monthly_summary lib rows year month)
      \<longleftrightarrow> ((c, ty), s) \<in> set tab"
    by (force simp add: client_monthly_summary_def tab_def cl_def)
  also have "\<dots> \<longleftrightarrow> map_of tab (c, ty) = Some s"
    using d by simp
  also have "\<dots> \<longleftrightarrow> (case map r_amount (filter (\<lambda>r. (r_category r, r_type r) = (c, ty)) cl) of
            [] \<Rightarrow> False
          | a # as \<Rightarrow> s = foldl (fadd lib) a as)"
    unfolding tab_def foldl_add_total(2) by (auto split: list.splits)
  finally show ?thesis
    unfolding amounts .
qed

text \<open>
  The rows of \<^verbatim>\<open>get_all_transactions\<close> against the transactions they come from: where the
  client's test of a row and the test of SQL on its transaction agree, the tests pick the
  rows of the same transactions.
\<close>

lemma picked_amounts:
  assumes "length ds = length sel"
    and "list_all2 (\<lambda>r t. A r \<longleftrightarrow> B t) (map2 row_of sel ds) sel"
  shows "map r_amount (filter (\<lambda>r. A r \<and> r_category r = c \<and> r_type r = ty)
            (map2 row_of sel ds))
           = map t_amount (filter (\<lambda>t. B t \<and> t_category t = c \<and> t_type t = ty) sel)"
  using assms by (induction sel ds rule: list_induct2') (auto simp add: row_of_def)

lemma summary_pairs:
  fixes l :: "(string \<times> string \<times> real) list"
  shows "(c, ty) \<in> set (map (\<lambda>(c, ty, s). (c, ty)) l) \<longleftrightarrow> (\<exists>s. (c, ty, s) \<in> set l)"
  by force

lemma get_monthly_summary_pairs:
  "(c, ty) \<in> set (map (\<lambda>(c, ty, s). (c, ty)) (get_monthly_summary lib d username year month))
     \<longleftrightarrow> map t_amount (filter (\<lambda>t. t_username t = username \<and> sql_in_month lib year month t
                                   \<and> t_category t = c \<and> t_type t = ty)
                         (transactions d)) \<noteq> []"
  unfolding summary_pairs get_monthly_summary_mem
  by (auto simp add: filter_empty_conv)

lemma client_monthly_summary_pairs:
  "(c, ty) \<in> set (map (\<lambda>(c, ty, s). (c, ty)) (client_monthly_summary lib rows year month))
     \<longleftrightarrow> map r_amount (filter (\<lambda>r. in_month year month r \<and> r_category r = c \<and> r_type r = ty)
                         rows) \<noteq> []"
proof -
  define amounts where "amounts = map r_amount
    (filter (\<lambda>r. in_month year month r \<and> r_category r = c \<and> r_type r = ty) rows)"
  have "(\<exists>s. case amounts of [] \<Rightarrow> False | a # as \<Rightarrow> s = foldl (fadd lib) a as)
      \<longleftrightarrow> amounts \<noteq> []"
    by (cases amounts) simp_all
  then show ?thesis
    unfolding summary_pairs client_monthly_summary_mem amounts_def .
qed

lemma client_monthly_summary_total:
  "(c, ty, s) \<in> set (client_monthly_summary lib rows year month)
     \<longleftrightarrow> (\<exists>r \<in> set rows. in_month year month r \<and> r_category r = c \<and> r_type r = ty)
         \<and> s = foldl (fadd lib)
                 (hd (map r_amount (filter (\<lambda>r. in_month year month r \<and> r_category r = c
                                               \<and> r_type r = ty) rows)))
                 (tl (map r_amount (filter (\<lambda>r. in_month year month r \<and> r_category r = c
                                               \<and> r_type r = ty) rows)))"
proof -
  define amounts where "amounts = map r_amount
    (filter (\<lambda>r. in_month year month r \<and> r_category r = c \<and> r_type r = ty) rows)"
  have some: "(\<exists>r \<in> set rows. in_month year month r \<and> r_category r = c \<and> r_type r = ty)
      \<longleftrightarrow> amounts \<noteq> []"
    by (auto simp add: amounts_def filter_empty_conv)
  have "(c, ty, s) \<in> set (client_monthly_summary lib rows year month)
      \<longleftrightarrow> (case amounts of [] \<Rightarrow> False | a # as \<Rightarrow> s = foldl (fadd lib) a as)"
    unfolding amounts_def by (rule client_monthly_summary_mem)
  also have "\<dots> \<longleftrightarrow> amounts \<noteq> [] \<and> s = foldl (fadd lib) (hd amounts) (tl amounts)"
    by (cases amounts) simp_all
  finally show ?thesis
    unfolding some amounts_def .
qed

lemma same_amounts:
  assumes ret: "get_all_transactions lib d username = Inr rows"
    and agree: "list_all2 (\<lambda>r t. in_month year month r \<longleftrightarrow> sql_in_month lib year month t)
                  rows (select_transactions d username)"
  shows "mset (map r_amount (filter (\<lambda>r. in_month year month r \<and> r_category r = c
                                        \<and> r_type r = ty) rows))
           = mset (map t_amount (filter (\<lambda>t. t_username t = username
                                             \<and> sql_in_month lib year month t
                                             \<and> t_category t = c \<and> t_type t = ty)
                                   (transactions d)))"
proof -
  define sel where "sel = select_transactions d username"
  from get_all_transactions_Inr [OF ret] obtain ds
    where len: "length ds = length sel" and rows: "rows = map2 row_of sel ds"
    unfolding sel_def by (elim exE conjE)
  have perm: "mset sel = filter_mset (\<lambda>t. t_username t = username) (mset (transactions d))"
    unfolding sel_def by (rule select_transactions_mset)
  have "map r_amount (filter (\<lambda>r. in_month year month r \<and> r_category r = c \<and> r_type r = ty)
            rows)
      = map t_amount (filter (\<lambda>t. sql_in_month lib year month t \<and> t_category t = c
                                   \<and> t_type t = ty) sel)"
    unfolding rows using len agree [unfolded rows sel_def [symmetric]]
    by (rule picked_amounts)
  then have "mset (map r_amount (filter (\<lambda>r. in_month year month r \<and> r_category r = c
                                        \<and> r_type r = ty) rows))
      = image_mset t_amount (filter_mset (\<lambda>t. sql_in_month lib year month t \<and> t_category t = c
                                   \<and> t_type t = ty) (mset sel))"
    by simp
  also have "\<dots> = mset (map t_amount (filter (\<lambda>t. t_username t = username
                                             \<and> sql_in_month lib year month t
                                             \<and> t_category t = c \<and> t_type t = ty)
                                   (transactions d)))"
    unfolding perm by (simp add: filter_filter_mset)
  finally show ?thesis .
qed

text \<open>
  The summaries, with the test of SQL written \<open>sql_in_month\<close> and the test of the client
  \<open>in_month\<close>.
\<close>

lemma monthly_summary_groups:
  "distinct (map (\<lambda>(c, ty, s). (c, ty)) (get_monthly_summary lib d username year month))
   \<and> (\<forall>c ty s. (c, ty, s) \<in> set (get_monthly_summary lib d username year month) \<longleftrightarrow>
        (\<exists>t \<in> set (transactions d). t_username t = username \<and> sql_in_month lib year month t
            \<and> t_category t = c \<and> t_type t = ty)
        \<and> s = sql_sum lib (map t_amount
                (filter (\<lambda>t. t_username t = username \<and> sql_in_month lib year month t
                             \<and> t_category t = c \<and> t_type t = ty)
                   (transactions d))))
   \<and> (\<forall>rows.
        distinct (map (\<lambda>(c, ty, s). (c, ty)) (client_monthly_summary lib rows year month))
        \<and> (\<forall>c ty s. (c, ty, s) \<in> set (client_monthly_summary lib rows year month) \<longleftrightarrow>
             (\<exists>r \<in> set rows. in_month year month r \<and> r_category r = c \<and> r_type r = ty)
             \<and> s = foldl (fadd lib)
                     (hd (map r_amount (filter (\<lambda>r. in_month year month r \<and> r_category r = c
                                                   \<and> r_type r = ty) rows)))
                     (tl (map r_amount (filter (\<lambda>r. in_month year month r \<and> r_category r = c
                                                   \<and> r_type r = ty) rows)))))
   \<and> (\<forall>rows. get_all_transactions lib d username = Inr rows
          \<and> list_all2 (\<lambda>r t. in_month year month r \<longleftrightarrow> sql_in_month lib year month t)
              rows (select_transactions d username) \<longrightarrow>
        (\<forall>c ty. mset (map r_amount (filter (\<lambda>r. in_month year month r \<and> r_category r = c
                                                \<and> r_type r = ty) rows))
                  = mset (map t_amount (filter (\<lambda>t. t_username t = username
                                                    \<and> sql_in_month lib year month t
                                                    \<and> t_category t = c \<and> t_type t = ty)
                                          (transactions d))))
        \<and> set (map (\<lambda>(c, ty, s). (c, ty)) (get_monthly_summary lib d username year month))
            = set (map (\<lambda>(c, ty, s). (c, ty)) (client_monthly_summary lib rows year month)))"
proof -
  have one: "distinct (map (\<lambda>(c, ty, s). (c, ty)) (get_monthly_summary lib d username year month))"
    unfolding get_monthly_summary_keys by simp
  have two: "\<forall>c ty s. (c, ty, s) \<in> set (get_monthly_summary lib d username year month) \<longleftrightarrow>
        (\<exists>t \<in> set (transactions d). t_username t = username \<and> sql_in_month lib year month t
            \<and> t_category t = c \<and> t_type t = ty)
        \<and> s = sql_sum lib (map t_amount
                (filter (\<lambda>t. t_username t = username \<and> sql_in_month lib year month t
                             \<and> t_category t = c \<and> t_type t = ty)
                   (transactions d)))"
    by (intro allI) (rule get_monthly_summary_mem)
  have three: "\<forall>rows.
        distinct (map (\<lambda>(c, ty, s). (c, ty)) (client_monthly_summary lib rows year month))
        \<and> (\<forall>c ty s. (c, ty, s) \<in> set (client_monthly_summary lib rows year month) \<longleftrightarrow>
             (\<exists>r \<in> set rows. in_month year month r \<and> r_category r = c \<and> r_type r = ty)
             \<and> s = foldl (fadd lib)
                     (hd (map r_amount (filter (\<lambda>r. in_month year month r \<and> r_category r = c
                                                   \<and> r_type r = ty) rows)))
                     (tl (map r_amount (filter (\<lambda>r. in_month year month r \<and> r_category r = c
                                                   \<and> r_type r = ty) rows))))"
  proof (rule allI, rule conjI)
    fix rows
    show "distinct (map (\<lambda>(c, ty, s). (c, ty)) (client_monthly_summary lib rows year month))"
      by (rule client_monthly_summary_keys)
    show "\<forall>c ty s. (c, ty, s) \<in> set (client_monthly_summary lib rows year month) \<longleftrightarrow>
             (\<exists>r \<in> set rows. in_month year month r \<and> r_category r = c \<and> r_type r = ty)
             \<and> s = foldl (fadd lib)
                     (hd (map r_amount (filter (\<lambda>r. in_month year month r \<and> r_category r = c
                                                   \<and> r_type r = ty) rows)))
                     (tl (map r_amount (filter (\<lambda>r. in_month year month r \<and> r_category r = c
                                                   \<and> r_type r = ty) rows)))"
      by (intro allI) (rule client_monthly_summary_total)
  qed
  have four: "\<forall>rows. get_all_transactions lib d username = Inr rows
          \<and> list_all2 (\<lambda>r t. in_month year month r \<longleftrightarrow> sql_in_month lib year month t)
              rows (select_transactions d username) \<longrightarrow>
        (\<forall>c ty. mset (map r_amount (filter (\<lambda>r. in_month year month r \<and> r_category r = c
                                                \<and> r_type r = ty) rows))
                  = mset (map t_amount (filter (\<lambda>t. t_username t = username
                                                    \<and> sql_in_month lib year month t
                                                    \<and> t_category t = c \<and> t_type t = ty)
                                          (transactions d))))
        \<and> set (map (\<lambda>(c, ty, s). (c, ty)) (get_monthly_summary lib d username year month))
            = set (map (\<lambda>(c, ty, s). (c, ty)) (client_monthly_summary lib rows year month))"
  proof (rule allI, rule impI, elim conjE)
    fix rows
    assume ret: "get_all_transactions lib d username = Inr rows"
      and agree: "list_all2 (\<lambda>r t. in_month year month r \<longleftrightarrow> sql_in_month lib year month t)
              rows (select_transactions d username)"
    have same: "mset (map r_amount (filter (\<lambda>r. in_month year month r \<and> r_category r = c
                                                \<and> r_type r = ty) rows))
                  = mset (map t_amount (filter (\<lambda>t. t_username t = username
                                                    \<and> sql_in_month lib year month t
                                                    \<and> t_category t = c \<and> t_type t = ty)
                                          (transactions d)))" for c ty
      using ret agree by (rule same_amounts)
    have pairs: "set (map (\<lambda>(c, ty, s). (c, ty)) (get_monthly_summary lib d username year month))
            = set (map (\<lambda>(c, ty, s). (c, ty)) (client_monthly_summary lib rows year month))"
    proof (rule set_eqI)
      fix x :: "string \<times> string"
      obtain c ty where x: "x = (c, ty)"
        by (cases x)
      define sql_amounts where "sql_amounts = map t_amount
        (filter (\<lambda>t. t_username t = username \<and> sql_in_month lib year month t
                     \<and> t_category t = c \<and> t_type t = ty) (transactions d))"
      define client_amounts where "client_amounts = map r_amount
        (filter (\<lambda>r. in_month year month r \<and> r_category r = c \<and> r_type r = ty) rows)"
      have "mset client_amounts = mset sql_amounts"
        unfolding client_amounts_def sql_amounts_def by (rule same)
      then have "length client_amounts = length sql_amounts"
        by (rule mset_eq_length)
      then have "sql_amounts \<noteq> [] \<longleftrightarrow> client_amounts \<noteq> []"
        by auto
      then show "x \<in> set (map (\<lambda>(c, ty, s). (c, ty))
                        (get_monthly_summary lib d username year month))
          \<longleftrightarrow> x \<in> set (map (\<lambda>(c, ty, s). (c, ty))
                          (client_monthly_summary lib rows year month))"
        unfolding x get_monthly_summary_pairs client_monthly_summary_pairs sql_amounts_def client_amounts_def .
    qed
    from same pairs
    show "(\<forall>c ty. mset (map r_amount (filter (\<lambda>r. in_month year month r \<and> r_category r = c
                                                \<and> r_type r = ty) rows))
                  = mset (map t_amount (filter (\<lambda>t. t_username t = username
                                                    \<and> sql_in_month lib year month t
                                                    \<and> t_category t = c \<and> t_type t = ty)
                                          (transactions d))))
        \<and> set (map (\<lambda>(c, ty, s). (c, ty)) (get_monthly_summary lib d username year month))
            = set (map (\<lambda>(c, ty, s). (c, ty)) (client_monthly_summary lib rows year month))"
      by (intro conjI allI)
  qed
  from one two three four show ?thesis
    by (intro conjI)
qed

text \<open>
  C3, as the code has it.
  \<^item> \<^verbatim>\<open>get_monthly_summary\<close> has at most one row for a pair of category and type. It has a
    row for a pair exactly when a transaction of the user has that category and type and
    a date text of which SQLite's \<^verbatim>\<open>strftime\<close> gives the year and the month asked for; the
    total of the row is the \<^verbatim>\<open>SUM\<close> of the amounts of these transactions, in the order of
    the table. A pair without such a transaction has no row.
  \<^item> The summary the client computes from rows of \<^verbatim>\<open>get_all_transactions\<close> has at most one
    row for a pair, too; it has a row for a pair exactly when one of the rows has that
    category and type and \<^verbatim>\<open>date.dt.year\<close> and \<^verbatim>\<open>date.dt.month\<close> as asked for, and its total
    is the amounts of these rows added up as doubles, in the order of the rows.
  \<^item> When \<^verbatim>\<open>get_all_transactions\<close> returns and, for each of its rows, the client's test of
    the row says what the test of SQL says of its transaction, both summaries have the same
    pairs and, for each pair, add up the same amounts, each as often in the one as in the
    other.
\<close>

theorem get_monthly_summary_groups:
  "distinct (map (\<lambda>(c, ty, s). (c, ty)) (get_monthly_summary lib d username year month))
   \<and> (\<forall>c ty s. (c, ty, s) \<in> set (get_monthly_summary lib d username year month) \<longleftrightarrow>
        (\<exists>t \<in> set (transactions d).
            t_username t = username
            \<and> (strftime lib ''%Y'' (t_date t) = Some (py_str year)
               \<and> strftime lib ''%m'' (t_date t) = Some (py_format_02d month))
            \<and> t_category t = c \<and> t_type t = ty)
        \<and> s = sql_sum lib (map t_amount
                (filter (\<lambda>t. t_username t = username
                             \<and> (strftime lib ''%Y'' (t_date t) = Some (py_str year)
                                \<and> strftime lib ''%m'' (t_date t) = Some (py_format_02d month))
                             \<and> t_category t = c \<and> t_type t = ty)
                   (transactions d))))
   \<and> (\<forall>rows.
        distinct (map (\<lambda>(c, ty, s). (c, ty)) (client_monthly_summary lib rows year month))
        \<and> (\<forall>c ty s. (c, ty, s) \<in> set (client_monthly_summary lib rows year month) \<longleftrightarrow>
             (\<exists>r \<in> set rows.
                 (dt_year (r_date r) = Some year \<and> dt_month (r_date r) = Some month)
                 \<and> r_category r = c \<and> r_type r = ty)
             \<and> s = foldl (fadd lib)
                     (hd (map r_amount
                        (filter (\<lambda>r. (dt_year (r_date r) = Some year
                                       \<and> dt_month (r_date r) = Some month)
                                     \<and> r_category r = c \<and> r_type r = ty) rows)))
                     (tl (map r_amount
                        (filter (\<lambda>r. (dt_year (r_date r) = Some year
                                       \<and> dt_month (r_date r) = Some month)
                                     \<and> r_category r = c \<and> r_type r = ty) rows)))))
   \<and> (\<forall>rows. get_all_transactions lib d username = Inr rows
          \<and> list_all2
              (\<lambda>r t. (dt_year (r_date r) = Some year \<and> dt_month (r_date r) = Some month)
                 \<longleftrightarrow> (strftime lib ''%Y'' (t_date t) = Some (py_str year)
                      \<and> strftime lib ''%m'' (t_date t) = Some (py_format_02d month)))
              rows (select_transactions d username) \<longrightarrow>
        (\<forall>c ty. mset (map r_amount
                    (filter (\<lambda>r. (dt_year (r_date r) = Some year
                                   \<and> dt_month (r_date r) = Some month)
                                 \<and> r_category r = c \<and> r_type r = ty) rows))
                  = mset (map t_amount
                      (filter (\<lambda>t. t_username t = username
                                   \<and> (strftime lib ''%Y'' (t_date t) = Some (py_str year)
                                      \<and> strftime lib ''%m'' (t_date t)
                                          = Some (py_format_02d month))
                                   \<and> t_category t = c \<and> t_type t = ty)
                         (transactions d))))
        \<and> set (map (\<lambda>(c, ty, s). (c, ty)) (get_monthly_summary lib d username year month))
            = set (map (\<lambda>(c, ty, s). (c, ty)) (client_monthly_summary lib rows year month)))"
  using monthly_summary_groups [of lib d username year month]
  unfolding sql_in_month_def in_month_def .

theorem get_monthly_summary_groups_witness:
  "get_all_transactions sample_library sample_db ''alice''
     = Inr [row_of (sample_transactions ! 3) (Timestamp 2024 2 1 0),
            row_of (sample_transactions ! 1) (Timestamp 2024 1 5 0),
            row_of (sample_transactions ! 0) (Timestamp 2024 1 5 0)]
   \<and> list_all2
        (\<lambda>r t. (dt_year (r_date r) = Some 2024 \<and> dt_month (r_date r) = Some 1)
           \<longleftrightarrow> (strftime sample_library ''%Y'' (t_date t) = Some (py_str 2024)
                \<and> strftime sample_library ''%m'' (t_date t) = Some (py_format_02d 1)))
        [row_of (sample_transactions ! 3) (Timestamp 2024 2 1 0),
         row_of (sample_transactions ! 1) (Timestamp 2024 1 5 0),
         row_of (sample_transactions ! 0) (Timestamp 2024 1 5 0)]
        (select_transactions sample_db ''alice'')
   \<and> py_str 2024 = ''2024'' \<and> py_format_02d 1 = ''01''
   \<and> get_monthly_summary sample_library sample_db ''alice'' 2024 1
       = [(''Rent'', ''Expense'', 40), (''Sales'', ''Income'', 100)]
   \<and> client_monthly_summary sample_library
        [row_of (sample_transactions ! 3) (Timestamp 2024 2 1 0),
         row_of (sample_transactions ! 1) (Timestamp 2024 1 5 0),
         row_of (sample_transactions ! 0) (Timestamp 2024 1 5 0)] 2024 1
       = [(''Rent'', ''Expense'', 40), (''Sales'', ''Income'', 100)]
   \<and> mset (map r_amount
        (filter (\<lambda>r. (dt_year (r_date r) = Some 2024 \<and> dt_month (r_date r) = Some 1)
                     \<and> r_category r = ''Sales'' \<and> r_type r = ''Income'')
           [row_of (sample_transactions ! 3) (Timestamp 2024 2 1 0),
            row_of (sample_transactions ! 1) (Timestamp 2024 1 5 0),
            row_of (sample_transactions ! 0) (Timestamp 2024 1 5 0)]))
       = mset (map t_amount
           (filter (\<lambda>t. t_username t = ''alice''
                        \<and> (strftime sample_library ''%Y'' (t_date t) = Some (py_str 2024)
                           \<and> strftime sample_library ''%m'' (t_date t) = Some (py_format_02d 1))
                        \<and> t_category t = ''Sales'' \<and> t_type t = ''Income'')
              (transactions sample_db)))
   \<and> set (map (\<lambda>(c, ty, s). (c, ty))
            (get_monthly_summary sample_library sample_db ''alice'' 2024 1))
       = set (map (\<lambda>(c, ty, s). (c, ty))
            (client_monthly_summary sample_library
               [row_of (sample_transactions ! 3) (Timestamp 2024 2 1 0),
                row_of (sample_transactions ! 1) (Timestamp 2024 1 5 0),
                row_of (sample_transactions ! 0) (Timestamp 2024 1 5 0)] 2024 1))"
proof -
  define rows where "rows = [row_of (sample_transactions ! 3) (Timestamp 2024 2 1 0),
    row_of (sample_transactions ! 1) (Timestamp 2024 1 5 0),
    row_of (sample_transactions ! 0) (Timestamp 2024 1 5 0)]"
  have ret: "get_all_transactions sample_library sample_db ''alice'' = Inr rows"
    unfolding rows_def by code_simp
  have agree: "list_all2
      (\<lambda>r t. (dt_year (r_date r) = Some 2024 \<and> dt_month (r_date r) = Some 1)
         \<longleftrightarrow> (strftime sample_library ''%Y'' (t_date t) = Some (py_str 2024)
              \<and> strftime sample_library ''%m'' (t_date t) = Some (py_format_02d 1)))
      rows (select_transactions sample_db ''alice'')"
    unfolding rows_def by code_simp
  have year: "py_str 2024 = ''2024''"
    by code_simp
  have month: "py_format_02d 1 = ''01''"
    by code_simp
  have sql: "get_monthly_summary sample_library sample_db ''alice'' 2024 1
       = [(''Rent'', ''Expense'', 40), (''Sales'', ''Income'', 100)]"
    by code_simp
  have client: "client_monthly_summary sample_library rows 2024 1
       = [(''Rent'', ''Expense'', 40), (''Sales'', ''Income'', 100)]"
    unfolding rows_def by code_simp
  note both = get_monthly_summary_groups
    [of sample_library sample_db "''alice''" 2024 1,
      THEN conjunct2, THEN conjunct2, THEN conjunct2, THEN spec, of rows,
      THEN mp, OF conjI, OF ret agree]
  note amounts = both [THEN conjunct1, THEN spec, THEN spec, of "''Sales''" "''Income''"]
  note pairs = both [THEN conjunct2]
  from ret agree year month sql client amounts pairs show ?thesis
    unfolding rows_def by (intro conjI)
qed

text \<open>
  The claim as the specification words it has the summary equal to the one computed on
  the client from the rows of \<^verbatim>\<open>get_all_transactions\<close>. \<^verbatim>\<open>add_transaction\<close> stores any text as
  the date: of a date written \<^verbatim>\<open>2024/01/05\<close>, \<^verbatim>\<open>pandas.to_datetime\<close> makes 5 January 2024 and
  SQLite's \<^verbatim>\<open>strftime\<close> makes \<^verbatim>\<open>NULL\<close>. The transaction is listed, the client's summary of
  January 2024 has its row, and \<^verbatim>\<open>get_monthly_summary\<close> has no row.
\<close>

theorem get_monthly_summary_cross_check_counterexample:
  "get_all_transactions sample_library slashes_db ''alice''
     = Inr [\<lparr>r_id = 1, r_date = Timestamp 2024 1 5 0, r_type = ''Income'',
             r_category = ''Sales'', r_amount = 100, r_description = None,
             r_created_at = ''2024-01-05 09:00:00''\<rparr>]
   \<and> client_monthly_summary sample_library
        [\<lparr>r_id = 1, r_date = Timestamp 2024 1 5 0, r_type = ''Income'',
          r_category = ''Sales'', r_amount = 100, r_description = None,
          r_created_at = ''2024-01-05 09:00:00''\<rparr>] 2024 1
       = [(''Sales'', ''Income'', 100)]
   \<and> get_monthly_summary sample_library slashes_db ''alice'' 2024 1 = []"
  by code_simp

end
